theory Spec2Isabelle
  imports Main "HOL-Library.Sublist" "HOL-Library.Word"
begin

section \<open>Go strings and the regexp engine\<close>

text \<open>
  A Go string is a byte sequence; \<open>len\<close> counts bytes. Where the source only counts
  bytes, compares or searches for ASCII text, a string is modelled as an Isabelle
  \<open>string\<close> (a list of 8-bit characters). Where it calls the rune-aware library
  functions \<open>strings.TrimSpace\<close> and \<open>strings.ToLower\<close> (the e-mail value object), a
  string is modelled as the list of its runes (code points, type \<open>rune\<close>), as the UTF-8
  decoder yields them (U+FFFD for a byte that is no valid encoding).
\<close>

type_synonym rune = nat

definition runes :: "string \<Rightarrow> rune list" where
  "runes s = map of_char s"

text \<open>
  The patterns the source compiles with \<open>regexp.MustCompile\<close> use character classes,
  concatenation, \<open>+\<close> and \<open>{2,}\<close> only. They are transcribed into the datatype \<open>rx\<close>;
  a class is its list of inclusive code ranges. \<open>MatchString\<close> asks whether some match
  exists, which is language membership: it is decided here with derivatives
  (\<open>after c r\<close> is what is left of \<open>r\<close> once \<open>c\<close> has been read).
\<close>

datatype rx =
    Never
  | Empty
  | Class "(rune \<times> rune) list"
  | Seq rx rx
  | Or rx rx
  | Many rx

definition in_class :: "(rune \<times> rune) list \<Rightarrow> rune \<Rightarrow> bool" where
  "in_class rs c = list_ex (\<lambda>(lo, hi). lo \<le> c \<and> c \<le> hi) rs"

fun accepts_empty :: "rx \<Rightarrow> bool" where
  "accepts_empty Never = False"
| "accepts_empty Empty = True"
| "accepts_empty (Class rs) = False"
| "accepts_empty (Seq a b) = (accepts_empty a \<and> accepts_empty b)"
| "accepts_empty (Or a b) = (accepts_empty a \<or> accepts_empty b)"
| "accepts_empty (Many a) = True"

fun after :: "rune \<Rightarrow> rx \<Rightarrow> rx" where
  "after c Never = Never"
| "after c Empty = Never"
| "after c (Class rs) = (if in_class rs c then Empty else Never)"
| "after c (Seq a b) =
     (if accepts_empty a then Or (Seq (after c a) b) (after c b) else Seq (after c a) b)"
| "after c (Or a b) = Or (after c a) (after c b)"
| "after c (Many a) = Seq (after c a) (Many a)"

fun full_match :: "rx \<Rightarrow> rune list \<Rightarrow> bool" where
  "full_match r [] = accepts_empty r"
| "full_match r (c # cs) = full_match (after c r) cs"

text \<open>\<open>r+\<close> and \<open>r{2,}\<close> of the pattern syntax.\<close>

definition OneOrMore :: "rx \<Rightarrow> rx" where
  "OneOrMore r = Seq r (Many r)"

definition TwoOrMore :: "rx \<Rightarrow> rx" where
  "TwoOrMore r = Seq r (Seq r (Many r))"

definition Lit :: "char \<Rightarrow> rx" where
  "Lit c = Class [(of_char c, of_char c)]"

definition from_to :: "char \<Rightarrow> char \<Rightarrow> rune \<times> rune" where
  "from_to a b = (of_char a, of_char b)"

definition one_of :: "string \<Rightarrow> (rune \<times> rune) list" where
  "one_of s = map (\<lambda>c. (of_char c, of_char c)) s"

text \<open>
  \<open>re.MatchString(s)\<close> for a pattern without anchors: some substring of \<open>s\<close> matches.
  For a pattern written \<open>^...$\<close> (no multi-line flag) the whole text has to match.
\<close>

definition MatchString :: "rx \<Rightarrow> rune list \<Rightarrow> bool" where
  "MatchString r s = list_ex (full_match r) (sublists s)"

definition MatchString_anchored :: "rx \<Rightarrow> rune list \<Rightarrow> bool" where
  "MatchString_anchored r s = full_match r s"

section \<open>Password value object (internal/user/domain, password.go)\<close>

text \<open>
  Constants \<open>MinLength\<close>, \<open>SaltBytes\<close>, \<open>HashIterations\<close>, \<open>HashKeyLength\<close> and the four
  patterns \<open>[A-Z]\<close>, \<open>[a-z]\<close>, \<open>\d\<close>, \<open>[!@#$%^&*(),.?":{}|<>]\<close>. All classes are ASCII, and
  the UTF-8 decoder yields an ASCII rune exactly for a byte below 0x80, so matching the
  bytes of the password is matching its runes.
\<close>

definition MinLength :: nat where "MinLength = 8"
definition SaltBytes :: nat where "SaltBytes = 16"
definition HashIterations :: nat where "HashIterations = 10000"
definition HashKeyLength :: nat where "HashKeyLength = 64"

definition uppercasePattern :: rx where
  "uppercasePattern = Class [from_to CHR ''A'' CHR ''Z'']"

definition lowercasePattern :: rx where
  "lowercasePattern = Class [from_to CHR ''a'' CHR ''z'']"

definition digitPattern :: rx where
  "digitPattern = Class [from_to CHR ''0'' CHR ''9'']"

definition specialCharPattern :: rx where
  "specialCharPattern = Class (one_of (''!@#$%^&*(),.?'' @ [CHR 0x22] @ '':{}|<>''))"

text \<open>
  The five errors of \<open>NewPassword\<close>, in the order of its checks. Their messages in the
  source: "password must be at least 8 characters long", "password must contain at least
  one uppercase letter", "... one lowercase letter", "... one number", "... one special
  character".
\<close>

datatype password_error =
  TooShort | MissingUppercase | MissingLowercase | MissingDigit | MissingSpecialChar

record Password =
  pw_value :: string

definition NewPassword :: "string \<Rightarrow> password_error + Password" where
  "NewPassword password =
     (if length password < MinLength then Inl TooShort
      else if \<not> MatchString uppercasePattern (runes password) then Inl MissingUppercase
      else if \<not> MatchString lowercasePattern (runes password) then Inl MissingLowercase
      else if \<not> MatchString digitPattern (runes password) then Inl MissingDigit
      else if \<not> MatchString specialCharPattern (runes password) then Inl MissingSpecialChar
      else Inr \<lparr>pw_value = password\<rparr>)"

text \<open>
  The password policy in the words of the specification: five rules in priority order,
  each a requirement on the raw string paired with the error of breaking it; the
  character sets are written out.
\<close>

definition uppercase_letters :: "char set" where
  "uppercase_letters = set ''ABCDEFGHIJKLMNOPQRSTUVWXYZ''"

definition lowercase_letters :: "char set" where
  "lowercase_letters = set ''abcdefghijklmnopqrstuvwxyz''"

definition digits :: "char set" where
  "digits = set ''0123456789''"

definition special_characters :: "char set" where
  "special_characters = set (''!@#$%^&*(),.?'' @ [CHR 0x22] @ '':{}|<>'')"

definition password_rules :: "((string \<Rightarrow> bool) \<times> password_error) list" where
  "password_rules =
     [(\<lambda>s. 8 \<le> length s, TooShort),
      (\<lambda>s. \<exists>c \<in> set s. c \<in> uppercase_letters, MissingUppercase),
      (\<lambda>s. \<exists>c \<in> set s. c \<in> lowercase_letters, MissingLowercase),
      (\<lambda>s. \<exists>c \<in> set s. c \<in> digits, MissingDigit),
      (\<lambda>s. \<exists>c \<in> set s. c \<in> special_characters, MissingSpecialChar)]"

fun first_failing_rule :: "((string \<Rightarrow> bool) \<times> password_error) list \<Rightarrow> string \<Rightarrow> password_error option" where
  "first_failing_rule [] s = None"
| "first_failing_rule ((holds, e) # rules) s =
     (if holds s then first_failing_rule rules s else Some e)"

text \<open>
  Which runes a pattern can read at all, and whether a pattern matches nothing: both are
  read off the syntax and are used to bound the texts a pattern accepts.
\<close>

fun may_read :: "rx \<Rightarrow> rune \<Rightarrow> bool" where
  "may_read Never c = False"
| "may_read Empty c = False"
| "may_read (Class rs) c = in_class rs c"
| "may_read (Seq a b) c = (may_read a c \<or> may_read b c)"
| "may_read (Or a b) c = (may_read a c \<or> may_read b c)"
| "may_read (Many a) c = may_read a c"

fun dead :: "rx \<Rightarrow> bool" where
  "dead Never = True"
| "dead (Seq a b) = (dead a \<or> dead b)"
| "dead (Or a b) = (dead a \<and> dead b)"
| "dead r = False"

section \<open>Library functions of package strings\<close>

text \<open>
  \<open>unicode.IsSpace\<close> and \<open>unicode.ToLower\<close> are fixed here on ASCII, where the Go library
  defines them by a comparison (\<open>'\t', '\n', '\v', '\f', '\r', ' '\<close> are the ASCII spaces;
  \<open>'A'..'Z'\<close> map to \<open>'a'..'z'\<close>). Beyond ASCII they read the Unicode tables, which are
  not part of the repository: the model takes them as a parameter.
\<close>

record unicode_tables =
  White_Space :: "rune \<Rightarrow> bool"
  LowerCase :: "rune \<Rightarrow> rune"

definition IsSpace :: "unicode_tables \<Rightarrow> rune \<Rightarrow> bool" where
  "IsSpace U r = (if r < 128 then r \<in> {9, 10, 11, 12, 13, 32} else White_Space U r)"

definition ToLower_rune :: "unicode_tables \<Rightarrow> rune \<Rightarrow> rune" where
  "ToLower_rune U r =
     (if r < 128 then (if 65 \<le> r \<and> r \<le> 90 then r + 32 else r) else LowerCase U r)"

definition TrimSpace :: "unicode_tables \<Rightarrow> rune list \<Rightarrow> rune list" where
  "TrimSpace U s = rev (dropWhile (IsSpace U) (rev (dropWhile (IsSpace U) s)))"

definition ToLower :: "unicode_tables \<Rightarrow> rune list \<Rightarrow> rune list" where
  "ToLower U s = map (ToLower_rune U) s"

text \<open>
  No rune outside ASCII has an ASCII capital letter as its lower case: a fact of the
  Unicode case tables, and the one assumption made on the parameter.
\<close>

definition lower_never_capital :: "unicode_tables \<Rightarrow> bool" where
  "lower_never_capital U = (\<forall>r. 128 \<le> r \<longrightarrow> \<not> (65 \<le> LowerCase U r \<and> LowerCase U r \<le> 90))"

text \<open>
  A fragment of the Unicode tables for the examples: the White_Space code points beyond
  ASCII, and the lower case of the Latin-1 capitals and of the Kelvin sign.
\<close>

definition sample_tables :: unicode_tables where
  "sample_tables =
     \<lparr>White_Space = (\<lambda>r. r \<in> {0x85, 0xA0, 0x1680, 0x2028, 0x2029, 0x202F, 0x205F, 0x3000}
                          \<or> (0x2000 \<le> r \<and> r \<le> 0x200A)),
      LowerCase = (\<lambda>r. if 0xC0 \<le> r \<and> r \<le> 0xDE \<and> r \<noteq> 0xD7 then r + 32
                         else if r = 0x212A then 0x6B else r)\<rparr>"

text \<open>
  \<open>strings.Split(s, sep)\<close> for a one-rune separator, \<open>strings.Contains\<close>,
  \<open>strings.HasPrefix\<close> and \<open>strings.HasSuffix\<close>.
\<close>

fun Split :: "'a list \<Rightarrow> 'a \<Rightarrow> 'a list list" where
  "Split [] sep = [[]]"
| "Split (c # cs) sep =
     (if c = sep then [] # Split cs sep
      else (case Split cs sep of p # ps \<Rightarrow> (c # p) # ps | [] \<Rightarrow> [[c]]))"

definition Contains :: "'a list \<Rightarrow> 'a list \<Rightarrow> bool" where
  "Contains s substr = sublist substr s"

definition HasPrefix :: "'a list \<Rightarrow> 'a list \<Rightarrow> bool" where
  "HasPrefix s p = prefix p s"

definition HasSuffix :: "'a list \<Rightarrow> 'a list \<Rightarrow> bool" where
  "HasSuffix s p = suffix p s"

section \<open>Email value object (internal/user/domain/email.go)\<close>

text \<open>The pattern \<open>^[a-zA-Z0-9._+-]+@[a-zA-Z0-9.-]+\.[a-zA-Z]{2,}$\<close>.\<close>

definition emailRegex :: rx where
  "emailRegex =
     Seq (OneOrMore (Class ([from_to CHR ''a'' CHR ''z'', from_to CHR ''A'' CHR ''Z'',
                             from_to CHR ''0'' CHR ''9''] @ one_of ''._+-'')))
    (Seq (Lit CHR ''@'')
    (Seq (OneOrMore (Class ([from_to CHR ''a'' CHR ''z'', from_to CHR ''A'' CHR ''Z'',
                             from_to CHR ''0'' CHR ''9''] @ one_of ''.-'')))
    (Seq (Lit CHR ''.'')
         (TwoOrMore (Class [from_to CHR ''a'' CHR ''z'', from_to CHR ''A'' CHR ''Z''])))))"

definition isValidEmail :: "rune list \<Rightarrow> bool" where
  "isValidEmail email =
     (if \<not> MatchString_anchored emailRegex email then False
      else if Contains email (runes ''..'') then False
      else
        (let parts = Split email (of_char CHR ''@'') in
         if length parts \<noteq> 2 then False
         else
           (let localPart = parts ! 0; domainPart = parts ! 1 in
            if HasPrefix localPart (runes ''.'') \<or> HasSuffix localPart (runes ''.'') then False
            else if HasPrefix domainPart (runes ''.'') \<or> HasSuffix domainPart (runes ''.'')
                    \<or> Contains domainPart (runes ''..'') then False
            else True)))"

text \<open>
  The errors of \<open>NewEmail\<close>: "email cannot be empty" and "invalid email format".
\<close>

datatype email_error = EmptyInput | InvalidFormat

record Email =
  email_value :: "rune list"

definition NewEmail :: "unicode_tables \<Rightarrow> rune list \<Rightarrow> email_error + Email" where
  "NewEmail U email =
     (if TrimSpace U email = [] then Inl EmptyInput
      else
        (let normalizedEmail = ToLower U (TrimSpace U email) in
         if \<not> isValidEmail normalizedEmail then Inl InvalidFormat
         else Inr \<lparr>email_value = normalizedEmail\<rparr>))"

section \<open>Password hashing (password.go: Hash, VerifyHash)\<close>

text \<open>
  \<open>hex.EncodeToString\<close> and \<open>hex.DecodeString\<close> of encoding/hex: two lower-case digits a
  byte; decoding accepts both cases and fails (here: \<open>None\<close>) on an odd length or on a
  character that is no hex digit.
\<close>

definition hextable :: string where
  "hextable = ''0123456789abcdef''"

fun EncodeToString :: "string \<Rightarrow> string" where
  "EncodeToString [] = []"
| "EncodeToString (b # bs) =
     hextable ! (of_char b div 16) # hextable ! (of_char b mod 16) # EncodeToString bs"

definition fromHexChar :: "char \<Rightarrow> nat option" where
  "fromHexChar c =
     (let n = (of_char c :: nat) in
      if 48 \<le> n \<and> n \<le> 57 then Some (n - 48)
      else if 97 \<le> n \<and> n \<le> 102 then Some (n - 97 + 10)
      else if 65 \<le> n \<and> n \<le> 70 then Some (n - 65 + 10)
      else None)"

fun DecodeString :: "string \<Rightarrow> string option" where
  "DecodeString [] = Some []"
| "DecodeString [c] = None"
| "DecodeString (a # b # cs) =
     (case (fromHexChar a, fromHexChar b) of
        (Some h, Some l) \<Rightarrow>
          (case DecodeString cs of
             Some bs \<Rightarrow> Some (char_of (h * 16 + l) # bs)
           | None \<Rightarrow> None)
      | _ \<Rightarrow> None)"

text \<open>
  \<open>pbkdf2.Key(password, salt, iter, keyLen, sha512.New)\<close> of golang.org/x/crypto is not
  part of the repository: the key derivation is a parameter of \<open>Hash\<close> and \<open>VerifyHash\<close>,
  a function of password, salt, iteration count and key length (the library's function
  follows below as \<open>pbkdf2_Key\<close>). \<open>rand.Read\<close> is the other input of \<open>Hash\<close>: \<open>Some salt\<close>
  for the \<open>SaltBytes\<close> random bytes it delivered, \<open>None\<close> when it returned an error.
\<close>

type_synonym kdf = "string \<Rightarrow> string \<Rightarrow> nat \<Rightarrow> nat \<Rightarrow> string"

definition Hash :: "kdf \<Rightarrow> string option \<Rightarrow> Password \<Rightarrow> string + string" where
  "Hash pbkdf2_Key rand_Read p =
     (case rand_Read of
        None \<Rightarrow> Inl ''failed to generate salt''
      | Some salt \<Rightarrow>
          (let hash = pbkdf2_Key (pw_value p) salt HashIterations HashKeyLength
           in Inr (EncodeToString salt @ '':'' @ EncodeToString hash)))"

definition VerifyHash :: "kdf \<Rightarrow> string \<Rightarrow> string \<Rightarrow> bool" where
  "VerifyHash pbkdf2_Key password hash =
     (let parts = Split hash CHR '':'' in
      if length parts \<noteq> 2 then False
      else
        (case DecodeString (parts ! 0) of
           None \<Rightarrow> False
         | Some salt \<Rightarrow>
             (case DecodeString (parts ! 1) of
                None \<Rightarrow> False
              | Some originalHash \<Rightarrow>
                  (let verifyHash = pbkdf2_Key password salt HashIterations HashKeyLength
                   in originalHash = verifyHash))))"

text \<open>
  The key derivation the repository calls, after the Go sources of golang.org/x/crypto/pbkdf2
  and crypto/hmac. A \<open>hash.Hash\<close> is its block size, the size of its digests and the
  digest of the bytes written to it; \<open>sha512.New\<close> has a block size of 128 and a digest
  size of 64 bytes, and the SHA-512 function itself stays a parameter.
\<close>

record hash_Hash =
  h_BlockSize :: nat
  h_Size :: nat
  h_Sum :: "string \<Rightarrow> string"

definition sha512_New :: "(string \<Rightarrow> string) \<Rightarrow> hash_Hash" where
  "sha512_New sha512 = \<lparr>h_BlockSize = 128, h_Size = 64, h_Sum = sha512\<rparr>"

definition xor_byte :: "char \<Rightarrow> char \<Rightarrow> char" where
  "xor_byte a b = char_of (xor (of_char a :: nat) (of_char b))"

text \<open>
  \<open>hmac.New(h, key)\<close>: a key longer than a block is hashed first; the key is copied
  into two blocks of zero bytes, which are then XORed with 0x36 and 0x5c. \<open>Sum\<close> of the
  bytes \<open>msg\<close> written since \<open>Reset\<close> is the outer digest of \<open>opad\<close> and the inner digest
  of \<open>ipad\<close> and \<open>msg\<close>.
\<close>

record hmac =
  hm_hash :: hash_Hash
  hm_ipad :: string
  hm_opad :: string

definition hmac_New :: "hash_Hash \<Rightarrow> string \<Rightarrow> hmac" where
  "hmac_New h key0 =
     (let blocksize = h_BlockSize h;
          key = (if blocksize < length key0 then h_Sum h key0 else key0);
          pad = take blocksize key @ replicate (blocksize - length key) (CHR 0x00)
      in \<lparr>hm_hash = h, hm_ipad = map (xor_byte (CHR 0x36)) pad,
           hm_opad = map (xor_byte (CHR 0x5C)) pad\<rparr>)"

definition hmac_Sum :: "hmac \<Rightarrow> string \<Rightarrow> string" where
  "hmac_Sum hm msg =
     h_Sum (hm_hash hm) (hm_opad hm @ h_Sum (hm_hash hm) (hm_ipad hm @ msg))"

text \<open>
  \<open>pbkdf2.Key\<close>: block \<open>i\<close> of the key is \<open>T_i = U_1 ^ U_2 ^ ... ^ U_iter\<close> with
  \<open>U_1 = PRF(password, salt || uint32(i))\<close> and \<open>U_n = PRF(password, U_(n-1))\<close>, where
  \<open>PRF\<close> is the HMAC keyed with the password; the key is the first \<open>keyLen\<close> bytes of
  the blocks.
\<close>

definition uint32_bytes :: "nat \<Rightarrow> string" where
  "uint32_bytes block =
     [char_of (block div 2 ^ 24), char_of (block div 2 ^ 16), char_of (block div 2 ^ 8),
      char_of block]"

fun pbkdf2_rounds :: "hmac \<Rightarrow> nat \<Rightarrow> string \<Rightarrow> string \<Rightarrow> string" where
  "pbkdf2_rounds prf 0 T U = T"
| "pbkdf2_rounds prf (Suc n) T U =
     (let U' = hmac_Sum prf U in pbkdf2_rounds prf n (map2 xor_byte T U') U')"

definition pbkdf2_Key :: "hash_Hash \<Rightarrow> kdf" where
  "pbkdf2_Key h password salt iter keyLen =
     (let prf = hmac_New h password;
          hashLen = h_Size h;
          numBlocks = (keyLen + hashLen - 1) div hashLen;
          dk = concat (map (\<lambda>block.
                 let U1 = hmac_Sum prf (salt @ uint32_bytes block)
                 in pbkdf2_rounds prf (iter - 1) U1 U1) [1..<numBlocks + 1])
      in take keyLen dk)"

section \<open>Identifiers of the examples\<close>

text \<open>
  User ids are made by \<open>uuid.New().String()\<close>, the text of a version 4 UUID. The examples
  use these two: the id of the stored user, and the id \<open>uuid.New()\<close> hands out next.
\<close>

abbreviation alice_id :: string where
  "alice_id \<equiv> ''00000000-0000-4000-8000-000000000001''"

abbreviation fresh_id :: string where
  "fresh_id \<equiv> ''00000000-0000-4000-8000-000000000002''"

section \<open>Session cookie store (internal/infrastructure/session/cookie_store.go)\<close>

text \<open>
  A \<open>time.Time\<close> is modelled by its instant, in nanoseconds since the Unix epoch, and a
  \<open>time.Duration\<close> by its count of nanoseconds: an \<open>int64\<close>, so the product
  \<open>time.Duration(n) * time.Second\<close> wraps around at 64 bits.
\<close>

type_synonym time = int

definition Second :: int where
  "Second = 1000000000"

definition Duration_times :: "int \<Rightarrow> int \<Rightarrow> int" where
  "Duration_times a b = sint (word_of_int a * word_of_int b :: 64 word)"

definition Add :: "time \<Rightarrow> int \<Rightarrow> time" where
  "Add t d = t + d"

definition After :: "time \<Rightarrow> time \<Rightarrow> bool" where
  "After t u = (u < t)"

text \<open>
  \<open>SessionData\<close>: the five fields of the struct in cookie_store.go, and the two token
  fields that \<open>HandleCallback\<close> (callback_handler.go) fills besides.
\<close>

record SessionData =
  sd_UserID :: string
  sd_Auth0UserID :: string
  sd_Email :: "rune list"
  sd_Name :: string
  sd_ExpiresAt :: time
  sd_AccessToken :: string
  sd_RefreshToken :: string

text \<open>
  \<open>*securecookie.SecureCookie\<close> (github.com/gorilla/securecookie) is not part of the
  repository. The store uses its two methods \<open>Encode(name, value)\<close> and
  \<open>Decode(name, value, dst)\<close>; both also read the clock (the codec stamps and checks a
  time of its own). They are the fields of a record, each returning the library's error
  (its message) or its result.
\<close>

record SecureCookie =
  sc_Encode :: "time \<Rightarrow> string \<Rightarrow> SessionData \<Rightarrow> string + string"
  sc_Decode :: "time \<Rightarrow> string \<Rightarrow> string \<Rightarrow> string + SessionData"

datatype SameSite = SameSiteLaxMode | SameSiteStrictMode | SameSiteNoneMode

record CookieStore =
  secureCookie :: SecureCookie
  cookieName :: string
  cookieDomain :: string
  cookiePath :: string
  cookieSecure :: bool
  cookieHTTPOnly :: bool
  cookieSameSite :: SameSite
  maxAge :: int

record Cookie =
  ck_Name :: string
  ck_Value :: string
  ck_Domain :: string
  ck_Path :: string
  ck_MaxAge :: int
  ck_Secure :: bool
  ck_HttpOnly :: bool
  ck_SameSite :: SameSite

text \<open>
  The process environment is the function \<open>os.Getenv\<close>: the empty string for a variable
  that is not set. \<open>strconv.ParseBool\<close> and \<open>strconv.Atoi\<close> (base 10, an optional sign,
  the range of a 64-bit \<open>int\<close>) return \<open>None\<close> where the library returns an error.
\<close>

type_synonym environ = "string \<Rightarrow> string"

definition ParseBool :: "string \<Rightarrow> bool option" where
  "ParseBool s =
     (if s \<in> set [''1'', ''t'', ''T'', ''TRUE'', ''true'', ''True''] then Some True
      else if s \<in> set [''0'', ''f'', ''F'', ''FALSE'', ''false'', ''False''] then Some False
      else None)"

fun parse_digits :: "nat \<Rightarrow> string \<Rightarrow> nat option" where
  "parse_digits acc [] = Some acc"
| "parse_digits acc (c # cs) =
     (let n = (of_char c :: nat) in
      if 48 \<le> n \<and> n \<le> 57 then parse_digits (acc * 10 + (n - 48)) cs else None)"

definition Atoi :: "string \<Rightarrow> int option" where
  "Atoi s =
     (let (neg, ds) =
        (case s of
           c # cs \<Rightarrow> if c = CHR ''-'' then (True, cs) else if c = CHR ''+'' then (False, cs)
                      else (False, s)
         | [] \<Rightarrow> (False, s))
      in if ds = [] then None
         else
           (case parse_digits 0 ds of
              None \<Rightarrow> None
            | Some n \<Rightarrow>
                (let v = (if neg then - int n else int n) in
                 if - (2 ^ 63) \<le> v \<and> v < 2 ^ 63 then Some v else None)))"

definition getEnvOrDefault :: "environ \<Rightarrow> string \<Rightarrow> string \<Rightarrow> string" where
  "getEnvOrDefault env key defaultValue =
     (if env key \<noteq> [] then env key else defaultValue)"

definition getEnvBoolOrDefault :: "environ \<Rightarrow> string \<Rightarrow> bool \<Rightarrow> bool" where
  "getEnvBoolOrDefault env key defaultValue =
     (if env key \<noteq> [] then
        (case ParseBool (env key) of Some parsed \<Rightarrow> parsed | None \<Rightarrow> defaultValue)
      else defaultValue)"

definition getEnvIntOrDefault :: "environ \<Rightarrow> string \<Rightarrow> int \<Rightarrow> int" where
  "getEnvIntOrDefault env key defaultValue =
     (if env key \<noteq> [] then
        (case Atoi (env key) of Some parsed \<Rightarrow> parsed | None \<Rightarrow> defaultValue)
      else defaultValue)"

text \<open>
  \<open>NewCookieStore\<close>. Its first argument stands for \<open>securecookie.New(hashKey, nil)\<close>
  followed by \<open>SetSerializer(securecookie.JSONEncoder{})\<close>: the codec the library builds
  from the key. The error is the message of the Go error.
\<close>

definition NewCookieStore :: "(string \<Rightarrow> SecureCookie) \<Rightarrow> environ \<Rightarrow> string + CookieStore" where
  "NewCookieStore securecookie_New env =
     (let secretKey = env ''SESSION_SECRET'' in
      if secretKey = [] then Inl ''SESSION_SECRET environment variable is required''
      else if length secretKey \<noteq> 32 then Inl ''SESSION_SECRET must be exactly 32 bytes''
      else
        (let sc = securecookie_New secretKey;
             sameSiteStr = getEnvOrDefault env ''SESSION_COOKIE_SAME_SITE'' ''lax''
         in Inr \<lparr>secureCookie = sc,
                 cookieName = getEnvOrDefault env ''SESSION_COOKIE_NAME'' ''zen_session'',
                 cookieDomain = getEnvOrDefault env ''SESSION_COOKIE_DOMAIN'' ''localhost'',
                 cookiePath = getEnvOrDefault env ''SESSION_COOKIE_PATH'' ''/'',
                 cookieSecure = getEnvBoolOrDefault env ''SESSION_COOKIE_SECURE'' False,
                 cookieHTTPOnly = getEnvBoolOrDefault env ''SESSION_COOKIE_HTTP_ONLY'' True,
                 cookieSameSite =
                   (if sameSiteStr = ''strict'' then SameSiteStrictMode
                    else if sameSiteStr = ''none'' then SameSiteNoneMode
                    else SameSiteLaxMode),
                 maxAge = getEnvIntOrDefault env ''SESSION_MAX_AGE'' 86400\<rparr>))"

text \<open>
  The errors of \<open>SetSession\<close> and \<open>GetSession\<close>, each carrying the wrapped error's message:
  "failed to encode session: ...", "session cookie not found: ...", "failed to decode
  session: ..." and "session has expired".
\<close>

datatype session_error =
    FailedToEncode string
  | CookieNotFound string
  | FailedToDecode string
  | SessionExpired

text \<open>
  \<open>SetSession\<close> returns the cookie it sets on the response (\<open>c.SetCookie\<close>) or its
  error. The clock reading \<open>time.Now()\<close> is the argument \<open>now\<close>.
\<close>

definition SetSession :: "CookieStore \<Rightarrow> time \<Rightarrow> SessionData \<Rightarrow> session_error + Cookie" where
  "SetSession cs now data0 =
     (let data = data0\<lparr>sd_ExpiresAt := Add now (Duration_times (maxAge cs) Second)\<rparr> in
      case sc_Encode (secureCookie cs) now (cookieName cs) data of
        Inl err \<Rightarrow> Inl (FailedToEncode err)
      | Inr encoded \<Rightarrow>
          Inr \<lparr>ck_Name = cookieName cs, ck_Value = encoded, ck_Domain = cookieDomain cs,
               ck_Path = cookiePath cs, ck_MaxAge = maxAge cs, ck_Secure = cookieSecure cs,
               ck_HttpOnly = cookieHTTPOnly cs, ck_SameSite = cookieSameSite cs\<rparr>)"

text \<open>
  \<open>GetSession\<close> reads the request's cookies (\<open>c.Cookie(name)\<close> fails with
  \<open>http.ErrNoCookie\<close> when there is none of that name).
\<close>

definition GetSession :: "CookieStore \<Rightarrow> time \<Rightarrow> (string \<rightharpoonup> string) \<Rightarrow> session_error + SessionData" where
  "GetSession cs now cookies =
     (case cookies (cookieName cs) of
        None \<Rightarrow> Inl (CookieNotFound ''http: named cookie not present'')
      | Some cookie_Value \<Rightarrow>
          (case sc_Decode (secureCookie cs) now (cookieName cs) cookie_Value of
             Inl err \<Rightarrow> Inl (FailedToDecode err)
           | Inr data \<Rightarrow>
               if After now (sd_ExpiresAt data) then Inl SessionExpired else Inr data))"

definition ClearSession :: "CookieStore \<Rightarrow> Cookie" where
  "ClearSession cs =
     \<lparr>ck_Name = cookieName cs, ck_Value = [], ck_Domain = cookieDomain cs,
      ck_Path = cookiePath cs, ck_MaxAge = - 1, ck_Secure = cookieSecure cs,
      ck_HttpOnly = cookieHTTPOnly cs, ck_SameSite = cookieSameSite cs\<rparr>"

text \<open>
  A stand-in for the library codec in examples: it knows finitely many cookie values,
  encodes a payload to the value listed for it (and refuses any other payload, as the
  library refuses a value that is too long), and decodes a listed value to its payload.
\<close>

definition tableCodec :: "(string \<times> SessionData) list \<Rightarrow> SecureCookie" where
  "tableCodec table =
     \<lparr>sc_Encode = (\<lambda>now name data.
        case find (\<lambda>(v, d). d = data) table of
          Some (v, d) \<Rightarrow> Inr v
        | None \<Rightarrow> Inl ''securecookie: the value is too long''),
      sc_Decode = (\<lambda>now name v.
        case map_of table v of
          Some d \<Rightarrow> Inr d
        | None \<Rightarrow> Inl ''securecookie: the value is not valid'')\<rparr>"


text \<open>
  The payload of the examples, with the expiry of an OAuth token in \<open>sd_ExpiresAt\<close> as
  \<open>HandleCallback\<close> leaves it, and a store with the default settings whose codec knows
  the cookie issued for that payload at time 1000.
\<close>

definition alice_session :: SessionData where
  "alice_session =
     \<lparr>sd_UserID = alice_id, sd_Auth0UserID = ''idp|abc123'', sd_Email = runes ''a@example.com'',
      sd_Name = ''Alice'', sd_ExpiresAt = 5000, sd_AccessToken = ''at'',
      sd_RefreshToken = ''rt''\<rparr>"

definition example_codec :: SecureCookie where
  "example_codec =
     tableCodec [(''cookie-1'', alice_session\<lparr>sd_ExpiresAt := 1000 + 86400 * 1000000000\<rparr>)]"

definition example_store :: CookieStore where
  "example_store =
     \<lparr>secureCookie = example_codec, cookieName = ''zen_session'',
      cookieDomain = ''localhost'', cookiePath = ''/'', cookieSecure = False,
      cookieHTTPOnly = True, cookieSameSite = SameSiteLaxMode, maxAge = 86400\<rparr>"

definition example_cookie :: Cookie where
  "example_cookie =
     \<lparr>ck_Name = ''zen_session'', ck_Value = ''cookie-1'', ck_Domain = ''localhost'',
      ck_Path = ''/'', ck_MaxAge = 86400, ck_Secure = False, ck_HttpOnly = True,
      ck_SameSite = SameSiteLaxMode\<rparr>"

section \<open>Start-up (cmd/zen-connect/main.go, internal/infrastructure/auth0/client.go)\<close>

record Config =
  cfg_Domain :: string
  cfg_ClientID :: string
  cfg_ClientSecret :: string
  cfg_Audience :: string

definition NewConfig :: "environ \<Rightarrow> string + Config" where
  "NewConfig env =
     (if env ''AUTH0_DOMAIN'' = [] then Inl ''AUTH0_DOMAIN environment variable is required''
      else if env ''AUTH0_CLIENT_ID'' = [] then
        Inl ''AUTH0_CLIENT_ID environment variable is required''
      else if env ''AUTH0_CLIENT_SECRET'' = [] then
        Inl ''AUTH0_CLIENT_SECRET environment variable is required''
      else if env ''AUTH0_AUDIENCE'' = [] then
        Inl ''AUTH0_AUDIENCE environment variable is required''
      else Inr \<lparr>cfg_Domain = env ''AUTH0_DOMAIN'', cfg_ClientID = env ''AUTH0_CLIENT_ID'',
                cfg_ClientSecret = env ''AUTH0_CLIENT_SECRET'',
                cfg_Audience = env ''AUTH0_AUDIENCE''\<rparr>)"

text \<open>
  \<open>main\<close> initialises its components one after the other and ends the process with
  \<open>logger.Fatal\<close> at the first that fails; only then does it register the routes and call
  \<open>e.Start(":8080")\<close>. The initialisations that reach outside the process (the logger,
  the database pool, the OIDC discovery) are inputs: \<open>None\<close> when they succeed, the
  error otherwise.
\<close>

record external_init =
  logger_Initialize :: "string option"
  postgres_NewClient :: "string option"
  oidc_NewProvider :: "string option"
  auth0_NewAuthService :: "string option"

datatype startup =
    Fatal string string
  | Serving CookieStore Config

definition main_startup ::
  "external_init \<Rightarrow> (string \<Rightarrow> SecureCookie) \<Rightarrow> environ \<Rightarrow> startup" where
  "main_startup ext securecookie_New env =
     (case logger_Initialize ext of
        Some err \<Rightarrow> Fatal ''Failed to initialize logger:'' err
      | None \<Rightarrow>
     (case postgres_NewClient ext of
        Some err \<Rightarrow> Fatal ''Failed to create PostgreSQL client'' err
      | None \<Rightarrow>
     (case NewCookieStore securecookie_New env of
        Inl err \<Rightarrow> Fatal ''Failed to create session store'' err
      | Inr sessionStore \<Rightarrow>
     (case NewConfig env of
        Inl err \<Rightarrow> Fatal ''Failed to create Auth0 config'' err
      | Inr auth0Config \<Rightarrow>
     (case oidc_NewProvider ext of
        Some err \<Rightarrow> Fatal ''Failed to create OIDC provider'' err
      | None \<Rightarrow>
     (case auth0_NewAuthService ext of
        Some err \<Rightarrow> Fatal ''Failed to create Auth0 service'' err
      | None \<Rightarrow> Serving sessionStore auth0Config))))))"

text \<open>An environment for the examples, with a secret of 31 and one of 32 bytes.\<close>

definition example_env :: "string \<Rightarrow> environ" where
  "example_env secret key =
     (if key = ''SESSION_SECRET'' then secret
      else if key = ''AUTH0_DOMAIN'' then ''tenant.auth0.com''
      else if key = ''AUTH0_CLIENT_ID'' then ''client''
      else if key = ''AUTH0_CLIENT_SECRET'' then ''secret''
      else if key = ''AUTH0_AUDIENCE'' then ''api''
      else [])"

definition all_up :: external_init where
  "all_up = \<lparr>logger_Initialize = None, postgres_NewClient = None, oidc_NewProvider = None,
            auth0_NewAuthService = None\<rparr>"





section \<open>Domain events (internal/user/domain/events.go)\<close>

text \<open>
  Each event carries the aggregate id and the time it occurred at; \<open>UserRegistered\<close> and
  \<open>EmailVerified\<close> also carry the e-mail address.
\<close>

datatype DomainEvent =
    UserRegistered string "rune list" time
  | EmailVerified string "rune list" time
  | PasswordChanged string time
  | UserProfileUpdated string time

definition is_EmailVerified :: "DomainEvent \<Rightarrow> bool" where
  "is_EmailVerified ev = (case ev of EmailVerified a e t \<Rightarrow> True | _ \<Rightarrow> False)"

section \<open>The flat User aggregate (internal/user/domain, an Auth0 user)\<close>

text \<open>
  \<open>uuid.New()\<close> and \<open>time.Now()\<close> are inputs of the operations that call them: the fresh
  id \<open>uuid\<close> and the clock reading \<open>now\<close> (one reading per operation).
\<close>

record Profile =
  displayName :: string
  bio :: string
  profileImageURL :: string

definition NewProfile :: "string \<Rightarrow> string \<Rightarrow> string \<Rightarrow> Profile" where
  "NewProfile dn b url = \<lparr>displayName = dn, bio = b, profileImageURL = url\<rparr>"

record User =
  u_id :: string
  u_auth0UserID :: string
  u_email :: Email
  u_profile :: Profile
  u_emailVerified :: bool
  u_createdAt :: time
  u_verifiedAt :: "time option"
  u_updatedAt :: time
  u_events :: "DomainEvent list"

definition NewUser :: "string \<Rightarrow> time \<Rightarrow> string \<Rightarrow> Email \<Rightarrow> string \<Rightarrow> bool \<Rightarrow> User" where
  "NewUser uuid now auth0UserID email dn emailVerified =
     \<lparr>u_id = uuid, u_auth0UserID = auth0UserID, u_email = email,
      u_profile = NewProfile dn [] [], u_emailVerified = emailVerified, u_createdAt = now,
      u_verifiedAt = (if emailVerified then Some now else None), u_updatedAt = now,
      u_events = [] @ [UserRegistered uuid (email_value email) now]\<rparr>"

definition ClearEvents :: "User \<Rightarrow> User" where
  "ClearEvents u = u\<lparr>u_events := []\<rparr>"

definition UpdateProfile :: "time \<Rightarrow> User \<Rightarrow> string \<Rightarrow> string \<Rightarrow> string \<Rightarrow> User" where
  "UpdateProfile now u dn b url =
     u\<lparr>u_profile := NewProfile dn b url, u_updatedAt := now,
       u_events := u_events u @ [UserProfileUpdated (u_id u) now]\<rparr>"

definition VerifyEmail :: "time \<Rightarrow> User \<Rightarrow> User" where
  "VerifyEmail now u =
     (if \<not> u_emailVerified u then
        u\<lparr>u_emailVerified := True, u_verifiedAt := Some now, u_updatedAt := now,
          u_events := u_events u @ [EmailVerified (u_id u) (email_value (u_email u)) now]\<rparr>
      else u)"

definition FromSnapshot ::
  "unicode_tables \<Rightarrow> string \<Rightarrow> string \<Rightarrow> rune list \<Rightarrow> string \<Rightarrow> string \<Rightarrow> string \<Rightarrow> bool
     \<Rightarrow> time \<Rightarrow> time option \<Rightarrow> time \<Rightarrow> email_error + User" where
  "FromSnapshot U ident auth0UserID email dn b url emailVerified createdAt verifiedAt updatedAt =
     (case NewEmail U email of
        Inl err \<Rightarrow> Inl err
      | Inr emailObj \<Rightarrow>
          Inr \<lparr>u_id = ident, u_auth0UserID = auth0UserID, u_email = emailObj,
               u_profile = NewProfile dn b url, u_emailVerified = emailVerified,
               u_createdAt = createdAt, u_verifiedAt = verifiedAt, u_updatedAt = updatedAt,
               u_events = []\<rparr>)"

section \<open>The Provisional/Active User aggregate (internal/user/domain, two user types)\<close>

record ProvisionalUser =
  p_id :: string
  p_email :: Email
  p_createdAt :: time
  p_events :: "DomainEvent list"

record ActiveUser =
  a_id :: string
  a_auth0UserID :: string
  a_email :: Email
  a_profile :: Profile
  a_emailVerified :: bool
  a_createdAt :: time
  a_verifiedAt :: "time option"
  a_updatedAt :: time
  a_events :: "DomainEvent list"

text \<open>
  The interface \<open>User\<close> with its two implementations; the type guards \<open>IsProvisional\<close>
  and \<open>IsActive\<close> are the case distinction on it.
\<close>

datatype AnyUser = Provisional ProvisionalUser | Active ActiveUser

definition ID :: "AnyUser \<Rightarrow> string" where
  "ID u = (case u of Provisional p \<Rightarrow> p_id p | Active a \<Rightarrow> a_id a)"

definition IsProvisional :: "AnyUser \<Rightarrow> ProvisionalUser option" where
  "IsProvisional u = (case u of Provisional p \<Rightarrow> Some p | Active a \<Rightarrow> None)"

definition IsActive :: "AnyUser \<Rightarrow> ActiveUser option" where
  "IsActive u = (case u of Provisional p \<Rightarrow> None | Active a \<Rightarrow> Some a)"

definition NewProvisionalUser :: "string \<Rightarrow> time \<Rightarrow> Email \<Rightarrow> ProvisionalUser" where
  "NewProvisionalUser uuid now email =
     \<lparr>p_id = uuid, p_email = email, p_createdAt = now,
      p_events = [UserRegistered uuid (email_value email) now]\<rparr>"

definition NewActiveUser :: "string \<Rightarrow> time \<Rightarrow> string \<Rightarrow> Email \<Rightarrow> string \<Rightarrow> bool \<Rightarrow> ActiveUser" where
  "NewActiveUser uuid now auth0UserID email dn emailVerified =
     \<lparr>a_id = uuid, a_auth0UserID = auth0UserID, a_email = email,
      a_profile = NewProfile dn [] [], a_emailVerified = emailVerified, a_createdAt = now,
      a_verifiedAt = (if emailVerified then Some now else None), a_updatedAt = now,
      a_events = [UserRegistered uuid (email_value email) now]\<rparr>"

definition ActivateUser :: "time \<Rightarrow> ProvisionalUser \<Rightarrow> string \<Rightarrow> string \<Rightarrow> bool \<Rightarrow> ActiveUser" where
  "ActivateUser now u auth0UserID dn emailVerified =
     \<lparr>a_id = p_id u, a_auth0UserID = auth0UserID, a_email = p_email u,
      a_profile = NewProfile dn [] [], a_emailVerified = emailVerified,
      a_createdAt = p_createdAt u,
      a_verifiedAt = (if emailVerified then Some now else None), a_updatedAt = now,
      a_events = p_events u @ [EmailVerified (p_id u) (email_value (p_email u)) now]\<rparr>"

definition Active_UpdateProfile :: "time \<Rightarrow> ActiveUser \<Rightarrow> string \<Rightarrow> string \<Rightarrow> string \<Rightarrow> ActiveUser" where
  "Active_UpdateProfile now a dn b url =
     a\<lparr>a_profile := \<lparr>displayName = dn, bio = b, profileImageURL = url\<rparr>, a_updatedAt := now\<rparr>"

definition Active_UpdateEmail :: "time \<Rightarrow> ActiveUser \<Rightarrow> Email \<Rightarrow> ActiveUser" where
  "Active_UpdateEmail now a email = a\<lparr>a_email := email, a_updatedAt := now\<rparr>"

definition Active_VerifyEmail :: "time \<Rightarrow> ActiveUser \<Rightarrow> ActiveUser" where
  "Active_VerifyEmail now a =
     (if \<not> a_emailVerified a then
        a\<lparr>a_emailVerified := True, a_verifiedAt := Some now, a_updatedAt := now,
          a_events := a_events a @ [EmailVerified (a_id a) (email_value (a_email a)) now]\<rparr>
      else a)"

section \<open>Errors and the repository interface (internal/user/domain/repository.go)\<close>

text \<open>
  A Go \<open>error\<close> of the user packages: the sentinel \<open>ErrUserNotFound\<close>, an error of the
  e-mail value object, an error of the database driver or of the identity provider's
  client libraries (its message), an error made by \<open>fmt.Errorf\<close> from a text alone, and
  an error wrapped by \<open>fmt.Errorf("...: %w", err)\<close>.
\<close>

datatype app_error =
    ErrUserNotFound
  | EmailErr email_error
  | StorageError string
  | ProviderError string
  | Plain string
  | Wrap string app_error

text \<open>
  \<open>UserRepository\<close>: the four methods, over a store of type \<open>'s\<close> holding users of type
  \<open>'u\<close>. \<open>Save\<close> returns the store after the write, or the error and leaves the store
  as it was; it reads the clock of the store.
\<close>

record ('s, 'u) UserRepository =
  Save :: "time \<Rightarrow> 's \<Rightarrow> 'u \<Rightarrow> app_error + 's"
  FindByEmail :: "'s \<Rightarrow> Email \<Rightarrow> app_error + 'u"
  FindByID :: "'s \<Rightarrow> string \<Rightarrow> app_error + 'u"
  FindByAuth0UserID :: "'s \<Rightarrow> string \<Rightarrow> app_error + 'u"

section \<open>PostgresUserRepository on the users table (migrations/001_create_users.sql)\<close>

text \<open>
  A row of table \<open>users\<close>. The table's constraints: \<open>id\<close> is the primary key,
  \<open>auth0_user_id\<close> and \<open>email\<close> are \<open>UNIQUE NOT NULL\<close>. The nullable text columns are read
  through \<open>sql.NullString\<close>, whose \<open>String\<close> is empty for NULL: they are strings here.
  A table is the list of its rows. \<open>row_of\<close> is the row of the ten arguments that \<open>Save\<close>
  passes to its statement, before they are converted to the types of the columns.
\<close>

record user_row =
  r_id :: string
  r_auth0_user_id :: string
  r_email :: "rune list"
  r_display_name :: string
  r_bio :: string
  r_profile_image_url :: string
  r_email_verified :: bool
  r_created_at :: time
  r_verified_at :: "time option"
  r_updated_at :: time

definition row_of :: "User \<Rightarrow> user_row" where
  "row_of user =
     \<lparr>r_id = u_id user, r_auth0_user_id = u_auth0UserID user,
      r_email = email_value (u_email user),
      r_display_name = displayName (u_profile user), r_bio = bio (u_profile user),
      r_profile_image_url = profileImageURL (u_profile user),
      r_email_verified = u_emailVerified user, r_created_at = u_createdAt user,
      r_verified_at = u_verifiedAt user, r_updated_at = u_updatedAt user\<rparr>"

text \<open>
  The repository works through its \<open>pool\<close> (a \<open>*pgxpool.Pool\<close>), which is not part of
  the repository's code, and neither is the server behind it. Two things they decide are
  inputs of the model: whether the statement fails for a reason of its own (no
  connection, a cancelled context, a byte sequence or a timestamp the server does not
  take: the message of that error), and which strings are read as a \<open>UUID\<close> (the text of
  the value as the server writes it back, \<open>None\<close> for a string that is not a UUID).
\<close>

record Pool =
  pool_failure :: "string option"
  uuid_in :: "string \<Rightarrow> string option"

text \<open>
  The column type \<open>VARCHAR(n)\<close> holds at most \<open>n\<close> characters. A longer value is an
  error, unless the characters in excess are all spaces: then it is cut to \<open>n\<close>
  characters. The characters of an e-mail address are its runes; those of a Go string
  holding UTF-8 are counted by its bytes other than continuation bytes.
\<close>

definition utf8_length :: "string \<Rightarrow> nat" where
  "utf8_length s =
     length (filter (\<lambda>c. \<not> (128 \<le> (of_char c :: nat) \<and> (of_char c :: nat) < 192)) s)"

definition varchar :: "('a list \<Rightarrow> nat) \<Rightarrow> 'a \<Rightarrow> nat \<Rightarrow> 'a list \<Rightarrow> 'a list option" where
  "varchar char_length space n s =
     (let excess = char_length s - n in
      if excess = 0 then Some s
      else if list_all (\<lambda>c. c = space) (drop (length s - excess) s)
      then Some (take (length s - excess) s)
      else None)"

text \<open>
  The column type \<open>TIMESTAMPTZ\<close> keeps microseconds: the nanoseconds of a \<open>time.Time\<close>
  below the microsecond are cut off when it is sent.
\<close>

definition timestamptz :: "time \<Rightarrow> time" where
  "timestamptz t = t - t mod 1000"

text \<open>
  The row that the arguments of \<open>Save\<close>'s statement make once they are converted to the
  types of their columns: \<open>id UUID\<close>, \<open>VARCHAR(255)\<close> for \<open>auth0_user_id\<close>, \<open>email\<close> and
  \<open>display_name\<close>, and \<open>TIMESTAMPTZ\<close> for the three instants. (The Go strings are never
  NULL, so the \<open>NOT NULL\<close> columns are satisfied; \<open>TEXT\<close> and \<open>BOOLEAN\<close> take the
  values as they are.)
\<close>

definition pg_row :: "Pool \<Rightarrow> User \<Rightarrow> app_error + user_row" where
  "pg_row pool user =
     (case pool_failure pool of
        Some msg \<Rightarrow> Inl (StorageError msg)
      | None \<Rightarrow>
          (case uuid_in pool (u_id user) of
             None \<Rightarrow> Inl (StorageError ''invalid input syntax for type uuid'')
           | Some ident \<Rightarrow>
               (case (varchar utf8_length CHR '' '' 255 (u_auth0UserID user),
                      varchar length 32 255 (email_value (u_email user)),
                      varchar utf8_length CHR '' '' 255 (displayName (u_profile user))) of
                  (Some auth0_user_id, Some email, Some display_name) \<Rightarrow>
                    Inr ((row_of user)\<lparr>r_id := ident, r_auth0_user_id := auth0_user_id,
                                        r_email := email, r_display_name := display_name,
                                        r_created_at := timestamptz (u_createdAt user),
                                        r_verified_at := map_option timestamptz (u_verifiedAt user),
                                        r_updated_at := timestamptz (u_updatedAt user)\<rparr>)
                | _ \<Rightarrow> Inl (StorageError ''value too long for type character varying(255)''))))"

text \<open>
  \<open>Save\<close> runs \<open>INSERT ... ON CONFLICT (id) DO UPDATE SET ...\<close>: a row with the same
  \<open>id\<close> is updated in every column but \<open>id\<close> and \<open>created_at\<close> (and the trigger
  \<open>update_users_updated_at\<close> sets \<open>updated_at\<close> to the database's \<open>NOW()\<close>); otherwise the
  row is inserted. Either way the statement fails with a unique violation when another
  row has the same \<open>auth0_user_id\<close> or the same \<open>email\<close> (both \<open>UNIQUE\<close>).
\<close>

definition auth0_user_id_taken :: "user_row list \<Rightarrow> user_row \<Rightarrow> bool" where
  "auth0_user_id_taken tbl r =
     list_ex (\<lambda>x. r_id x \<noteq> r_id r \<and> r_auth0_user_id x = r_auth0_user_id r) tbl"

definition email_taken :: "user_row list \<Rightarrow> user_row \<Rightarrow> bool" where
  "email_taken tbl r = list_ex (\<lambda>x. r_id x \<noteq> r_id r \<and> r_email x = r_email r) tbl"

definition pg_Save :: "Pool \<Rightarrow> time \<Rightarrow> user_row list \<Rightarrow> User \<Rightarrow> app_error + user_row list" where
  "pg_Save pool db_now tbl user =
     (case pg_row pool user of
        Inl err \<Rightarrow> Inl err
      | Inr r \<Rightarrow>
          if auth0_user_id_taken tbl r then
            Inl (StorageError
              ''duplicate key value violates unique constraint users_auth0_user_id_key'')
          else if email_taken tbl r then
            Inl (StorageError ''duplicate key value violates unique constraint users_email_key'')
          else if list_ex (\<lambda>x. r_id x = r_id r) tbl then
            Inr (map (\<lambda>x. if r_id x = r_id r
                             then r\<lparr>r_created_at := r_created_at x, r_updated_at := db_now\<rparr>
                             else x) tbl)
          else Inr (tbl @ [r]))"

definition reconstructUser :: "unicode_tables \<Rightarrow> user_row \<Rightarrow> app_error + User" where
  "reconstructUser U r =
     (case FromSnapshot U (r_id r) (r_auth0_user_id r) (r_email r) (r_display_name r) (r_bio r)
             (r_profile_image_url r) (r_email_verified r) (r_created_at r) (r_verified_at r)
             (r_updated_at r) of
        Inl err \<Rightarrow> Inl (EmailErr err)
      | Inr user \<Rightarrow> Inr user)"

definition QueryRow ::
  "Pool \<Rightarrow> unicode_tables \<Rightarrow> user_row list \<Rightarrow> (user_row \<Rightarrow> bool) \<Rightarrow> app_error + User" where
  "QueryRow pool U tbl cond =
     (case pool_failure pool of
        Some msg \<Rightarrow> Inl (StorageError msg)
      | None \<Rightarrow>
          (case find cond tbl of
             None \<Rightarrow> Inl ErrUserNotFound
           | Some r \<Rightarrow> reconstructUser U r))"

definition pg_FindByID ::
  "Pool \<Rightarrow> unicode_tables \<Rightarrow> user_row list \<Rightarrow> string \<Rightarrow> app_error + User" where
  "pg_FindByID pool U tbl ident =
     (case pool_failure pool of
        Some msg \<Rightarrow> Inl (StorageError msg)
      | None \<Rightarrow>
          (case uuid_in pool ident of
             None \<Rightarrow> Inl (StorageError ''invalid input syntax for type uuid'')
           | Some i \<Rightarrow> QueryRow pool U tbl (\<lambda>r. r_id r = i)))"

definition pg_FindByEmail ::
  "Pool \<Rightarrow> unicode_tables \<Rightarrow> user_row list \<Rightarrow> Email \<Rightarrow> app_error + User" where
  "pg_FindByEmail pool U tbl email = QueryRow pool U tbl (\<lambda>r. r_email r = email_value email)"

definition pg_FindByAuth0UserID ::
  "Pool \<Rightarrow> unicode_tables \<Rightarrow> user_row list \<Rightarrow> string \<Rightarrow> app_error + User" where
  "pg_FindByAuth0UserID pool U tbl auth0UserID =
     QueryRow pool U tbl (\<lambda>r. r_auth0_user_id r = auth0UserID)"

definition PostgresUserRepository ::
  "Pool \<Rightarrow> unicode_tables \<Rightarrow> (user_row list, User) UserRepository" where
  "PostgresUserRepository pool U =
     \<lparr>Save = pg_Save pool, FindByEmail = pg_FindByEmail pool U, FindByID = pg_FindByID pool U,
      FindByAuth0UserID = pg_FindByAuth0UserID pool U\<rparr>"


text \<open>
  A pool for the examples: it never fails, and it reads the UUIDs written in the form
  \<open>uuid.New().String()\<close> writes them (lower-case digits in groups of 8, 4, 4, 4 and 12),
  which is the form the server writes back.
\<close>

definition canonical_uuid :: "string \<Rightarrow> bool" where
  "canonical_uuid s =
     list_all2 (\<lambda>p c. if p = CHR ''-'' then c = CHR ''-'' else c \<in> set hextable)
       ''xxxxxxxx-xxxx-xxxx-xxxx-xxxxxxxxxxxx'' s"

definition example_pool :: Pool where
  "example_pool =
     \<lparr>pool_failure = None, uuid_in = (\<lambda>s. if canonical_uuid s then Some s else None)\<rparr>"

section \<open>InMemoryUserRepository (internal/user/infrastructure/memory_repository.go)\<close>







section \<open>Reconciling verified claims with a local user\<close>

text \<open>
  The claims of a verified ID token (\<open>Claims\<close> in package auth0) and the command the
  callback handler builds from them (\<open>dto.RegisterFromAuthCommand\<close>).
\<close>

record Claims =
  c_Sub :: string
  c_Name :: string
  c_Email :: "rune list"
  c_EmailVerified :: bool
  c_Picture :: string

record RegisterFromAuthCommand =
  cmd_Auth0UserID :: string
  cmd_Email :: "rune list"
  cmd_Name :: string
  cmd_Picture :: string
  cmd_EmailVerified :: bool

text \<open>
  Every function below takes the repository \<open>R\<close> it was constructed with, the store
  \<open>st\<close> behind it, and the inputs \<open>uuid\<close> (what \<open>uuid.New()\<close> would return) and \<open>now\<close>;
  it returns its Go result together with the store afterwards.
\<close>

text \<open>\<open>userServiceImpl.RegisterOrUpdateUserFromAuth\<close> (user_service_impl.go).\<close>

definition RegisterOrUpdateUserFromAuth ::
  "('s, User) UserRepository \<Rightarrow> unicode_tables \<Rightarrow> string \<Rightarrow> time \<Rightarrow> 's
     \<Rightarrow> RegisterFromAuthCommand \<Rightarrow> (app_error + User) \<times> 's" where
  "RegisterOrUpdateUserFromAuth R U uuid now st cmd =
     (case FindByAuth0UserID R st (cmd_Auth0UserID cmd) of
        Inr user0 \<Rightarrow>
          (let user = UpdateProfile now user0 (cmd_Name cmd) [] (cmd_Picture cmd) in
           case Save R now st user of
             Inl err \<Rightarrow> (Inl err, st)
           | Inr st' \<Rightarrow> (Inr user, st'))
      | Inl err0 \<Rightarrow>
          if err0 \<noteq> ErrUserNotFound then (Inl err0, st)
          else
            (case NewEmail U (cmd_Email cmd) of
               Inl err \<Rightarrow> (Inl (EmailErr err), st)
             | Inr email \<Rightarrow>
                 (let user = NewUser uuid now (cmd_Auth0UserID cmd) email (cmd_Name cmd)
                               (cmd_EmailVerified cmd) in
                  case Save R now st user of
                    Inl err \<Rightarrow> (Inl err, st)
                  | Inr st' \<Rightarrow> (Inr user, st'))))"

text \<open>
  \<open>RegisterUserUseCase.Execute\<close> (usecase/register_user.go): a local registration saves
  a user with an empty Auth0 id through \<open>UserService.UpdateUser\<close>, which is \<open>Save\<close>.
\<close>

definition RegisterUser_Execute ::
  "('s, User) UserRepository \<Rightarrow> unicode_tables \<Rightarrow> string \<Rightarrow> time \<Rightarrow> 's
     \<Rightarrow> rune list \<Rightarrow> string \<Rightarrow> (app_error + User) \<times> 's" where
  "RegisterUser_Execute R U uuid now st req_Email req_Password =
     (if req_Email = [] \<or> req_Password = [] then (Inl (Plain ''invalid input''), st)
      else
        (case NewEmail U req_Email of
           Inl err \<Rightarrow> (Inl (EmailErr err), st)
         | Inr email \<Rightarrow>
             (let user = NewUser uuid now [] email [] False in
              case Save R now st user of
                Inl err \<Rightarrow> (Inl err, st)
              | Inr st' \<Rightarrow> (Inr user, st'))))"

text \<open>
  \<open>CallbackHandler.createOrUpdateUser\<close> of callback_handler.go, on the flat \<open>User\<close> and
  the repository.
\<close>

definition createOrUpdateUser ::
  "('s, User) UserRepository \<Rightarrow> unicode_tables \<Rightarrow> string \<Rightarrow> time \<Rightarrow> 's \<Rightarrow> Claims
     \<Rightarrow> (app_error + User) \<times> 's" where
  "createOrUpdateUser R U uuid now st claims =
     (case FindByAuth0UserID R st (c_Sub claims) of
        Inr existingUser0 \<Rightarrow>
          (let existingUser1 =
                 (if displayName (u_profile existingUser0) \<noteq> c_Name claims
                  then UpdateProfile now existingUser0 (c_Name claims)
                         (bio (u_profile existingUser0)) (c_Picture claims)
                  else existingUser0);
               existingUser =
                 (if c_EmailVerified claims \<and> \<not> u_emailVerified existingUser1
                  then VerifyEmail now existingUser1 else existingUser1)
           in case Save R now st existingUser of
                Inl err \<Rightarrow> (Inl (Wrap ''failed to update user'' err), st)
              | Inr st' \<Rightarrow> (Inr existingUser, st'))
      | Inl err0 \<Rightarrow>
          (case NewEmail U (c_Email claims) of
             Inl err \<Rightarrow> (Inl (Wrap ''invalid email'' (EmailErr err)), st)
           | Inr email \<Rightarrow>
               (let newUser0 = NewUser uuid now (c_Sub claims) email (c_Name claims)
                                 (c_EmailVerified claims);
                    newUser =
                      (if c_Picture claims \<noteq> []
                       then UpdateProfile now newUser0 (c_Name claims) [] (c_Picture claims)
                       else newUser0)
                in case Save R now st newUser of
                     Inl err \<Rightarrow> (Inl (Wrap ''failed to save user'' err), st)
                   | Inr st' \<Rightarrow> (Inr newUser, st'))))"

text \<open>
  \<open>CallbackHandler.createOrUpdateUser\<close> of the handler on the Provisional/Active
  aggregate, the one with the step from a provisional to an active user.
\<close>

definition createOrUpdateUser_activating ::
  "('s, AnyUser) UserRepository \<Rightarrow> unicode_tables \<Rightarrow> string \<Rightarrow> time \<Rightarrow> 's \<Rightarrow> Claims
     \<Rightarrow> (app_error + AnyUser) \<times> 's" where
  "createOrUpdateUser_activating R U uuid now st claims =
     (let create =
        (case NewEmail U (c_Email claims) of
           Inl err \<Rightarrow> (Inl (Wrap ''invalid email'' (EmailErr err)), st)
         | Inr email \<Rightarrow>
             (let create_new =
                (let newUser0 = NewActiveUser uuid now (c_Sub claims) email (c_Name claims)
                                  (c_EmailVerified claims);
                     newUser =
                       (if c_Picture claims \<noteq> []
                        then Active_UpdateProfile now newUser0 (c_Name claims) []
                               (c_Picture claims)
                        else newUser0)
                 in case Save R now st (Active newUser) of
                      Inl err \<Rightarrow> (Inl (Wrap ''failed to create user'' err), st)
                    | Inr st' \<Rightarrow> (Inr (Active newUser), st'))
              in case FindByEmail R st email of
                   Inl err \<Rightarrow> create_new
                 | Inr existingUser \<Rightarrow>
                     (case IsProvisional existingUser of
                        None \<Rightarrow> create_new
                      | Some provisionalUser \<Rightarrow>
                          (let activeUser0 = ActivateUser now provisionalUser (c_Sub claims)
                                               (c_Name claims) (c_EmailVerified claims);
                               activeUser =
                                 (if c_Picture claims \<noteq> []
                                  then Active_UpdateProfile now activeUser0 (c_Name claims) []
                                         (c_Picture claims)
                                  else activeUser0)
                           in case Save R now st (Active activeUser) of
                                Inl err \<Rightarrow> (Inl (Wrap ''failed to activate user'' err), st)
                              | Inr st' \<Rightarrow> (Inr (Active activeUser), st')))))
      in case FindByAuth0UserID R st (c_Sub claims) of
           Inl err \<Rightarrow> create
         | Inr existingUser \<Rightarrow>
             (case IsActive existingUser of
                None \<Rightarrow> create
              | Some activeUser0 \<Rightarrow>
                  (let finish = (\<lambda>activeUser1.
                     (let activeUser2 =
                            (if displayName (a_profile activeUser1) \<noteq> c_Name claims
                             then Active_UpdateProfile now activeUser1 (c_Name claims)
                                    (bio (a_profile activeUser1)) (c_Picture claims)
                             else activeUser1);
                          activeUser =
                            (if c_EmailVerified claims \<and> \<not> a_emailVerified activeUser2
                             then Active_VerifyEmail now activeUser2 else activeUser2)
                      in case Save R now st (Active activeUser) of
                           Inl err \<Rightarrow> (Inl (Wrap ''failed to update user'' err), st)
                         | Inr st' \<Rightarrow> (Inr (Active activeUser), st')))
                   in if email_value (a_email activeUser0) \<noteq> c_Email claims
                      then (case NewEmail U (c_Email claims) of
                              Inl err \<Rightarrow> (Inl (Wrap ''invalid email'' (EmailErr err)), st)
                            | Inr email \<Rightarrow> finish (Active_UpdateEmail now activeUser0 email))
                      else finish activeUser0)))"

section \<open>Example data for the reconciliation scenarios\<close>

text \<open>
  The claims \<open>{sub: "idp|abc123", email: "a@example.com", emailVerified: true, name:
  "Alice"}\<close> of the specification's scenarios, the command built from them, and the
  stores they are reconciled against.
\<close>

definition alice_claims :: Claims where
  "alice_claims =
     \<lparr>c_Sub = ''idp|abc123'', c_Name = ''Alice'', c_Email = runes ''a@example.com'',
      c_EmailVerified = True, c_Picture = ''https://img.example/a.png''\<rparr>"

definition alice_cmd :: RegisterFromAuthCommand where
  "alice_cmd =
     \<lparr>cmd_Auth0UserID = ''idp|abc123'', cmd_Email = runes ''a@example.com'',
      cmd_Name = ''Alice'', cmd_Picture = ''https://img.example/a.png'',
      cmd_EmailVerified = True\<rparr>"

definition alice_email :: Email where
  "alice_email = \<lparr>email_value = runes ''a@example.com''\<rparr>"

text \<open>
  The users table after a local registration of \<open>a@example.com\<close> at time 1000 (one row,
  not linked to any subject id), and the user read back from it.
\<close>

definition unlinked_table :: "user_row list" where
  "unlinked_table =
     [\<lparr>r_id = alice_id, r_auth0_user_id = [], r_email = runes ''a@example.com'',
       r_display_name = [], r_bio = [], r_profile_image_url = [], r_email_verified = False,
       r_created_at = 1000, r_verified_at = None, r_updated_at = 1000\<rparr>]"

definition unlinked_user :: User where
  "unlinked_user =
     \<lparr>u_id = alice_id, u_auth0UserID = [], u_email = alice_email,
      u_profile = \<lparr>displayName = [], bio = [], profileImageURL = []\<rparr>,
      u_emailVerified = False, u_createdAt = 1000, u_verifiedAt = None, u_updatedAt = 1000,
      u_events = []\<rparr>"

text \<open>
  The users table holding Alice already linked to \<open>idp|abc123\<close>, her e-mail address not
  yet verified and a bio of her own; and that user as read back.
\<close>

definition linked_table :: "user_row list" where
  "linked_table =
     [\<lparr>r_id = alice_id, r_auth0_user_id = ''idp|abc123'', r_email = runes ''a@example.com'',
       r_display_name = ''Alice'', r_bio = ''I sit every morning.'',
       r_profile_image_url = ''https://img.example/a.png'', r_email_verified = False,
       r_created_at = 1000, r_verified_at = None, r_updated_at = 1000\<rparr>]"

definition linked_user :: User where
  "linked_user =
     \<lparr>u_id = alice_id, u_auth0UserID = ''idp|abc123'', u_email = alice_email,
      u_profile = \<lparr>displayName = ''Alice'', bio = ''I sit every morning.'',
                    profileImageURL = ''https://img.example/a.png''\<rparr>,
      u_emailVerified = False, u_createdAt = 1000, u_verifiedAt = None, u_updatedAt = 1000,
      u_events = []\<rparr>"

text \<open>
  A second user with the same e-mail address under another id, and the in-memory
  repository after saving \<open>unlinked_user\<close> and then this one.
\<close>

definition second_user :: User where
  "second_user =
     \<lparr>u_id = fresh_id, u_auth0UserID = ''idp|abc123'', u_email = alice_email,
      u_profile = \<lparr>displayName = ''Alice'', bio = [], profileImageURL = []\<rparr>,
      u_emailVerified = True, u_createdAt = 2000, u_verifiedAt = Some 2000, u_updatedAt = 2000,
      u_events = [UserRegistered fresh_id (runes ''a@example.com'') 2000]\<rparr>"




text \<open>
  A provisional user of the Provisional/Active aggregate with that address, and a
  repository for it over a list of users, with the look-ups the handler needs.
\<close>

definition provisional_alice :: ProvisionalUser where
  "provisional_alice =
     \<lparr>p_id = alice_id, p_email = alice_email, p_createdAt = 1000, p_events = []\<rparr>"

definition list_repository :: "(AnyUser list, AnyUser) UserRepository" where
  "list_repository =
     \<lparr>Save = (\<lambda>now st u. Inr (u # filter (\<lambda>x. ID x \<noteq> ID u) st)),
      FindByEmail = (\<lambda>st email.
        case find (\<lambda>x. (case x of Provisional p \<Rightarrow> p_email p | Active a \<Rightarrow> a_email a) = email) st of
          None \<Rightarrow> Inl ErrUserNotFound | Some x \<Rightarrow> Inr x),
      FindByID = (\<lambda>st ident.
        case find (\<lambda>x. ID x = ident) st of None \<Rightarrow> Inl ErrUserNotFound | Some x \<Rightarrow> Inr x),
      FindByAuth0UserID = (\<lambda>st sub.
        case find (\<lambda>x. (case x of Provisional p \<Rightarrow> False | Active a \<Rightarrow> a_auth0UserID a = sub)) st of
          None \<Rightarrow> Inl ErrUserNotFound | Some x \<Rightarrow> Inr x)\<rparr>"

section \<open>The callback handler and the routes (package auth0, internal/auth/interfaces/routes.go)\<close>

text \<open>
  The identity provider, as the handlers reach it through \<open>oauth2.Config\<close> and the OIDC
  verifier (libraries outside the repository): \<open>AuthCodeURL(state, AccessTypeOffline)\<close>
  builds the authorization URL that carries \<open>state\<close>; \<open>Exchange(ctx, code)\<close> returns the
  token set or an error; \<open>Verify(ctx, rawIDToken)\<close> returns the verified ID token or an
  error, and the token's \<open>Claims(&claims)\<close> the claims or an error.
\<close>

record Token =
  t_AccessToken :: string
  t_RefreshToken :: string
  t_Expiry :: time
  t_id_token :: "string option"

record identity_provider =
  AuthCodeURL :: "string \<Rightarrow> string"
  Exchange :: "string \<Rightarrow> string + Token"
  Verify :: "string \<Rightarrow> string + (string + Claims)"

definition GetLoginURL :: "identity_provider \<Rightarrow> string \<Rightarrow> string" where
  "GetLoginURL idp state = AuthCodeURL idp state"

text \<open>
  \<open>createOrUpdateUser\<close> of the handler that is constructed with the user service: it
  builds the command and calls \<open>RegisterOrUpdateUserFromAuth\<close>.
\<close>

definition createOrUpdateUser_via_service ::
  "('s, User) UserRepository \<Rightarrow> unicode_tables \<Rightarrow> string \<Rightarrow> time \<Rightarrow> 's \<Rightarrow> Claims
     \<Rightarrow> (app_error + User) \<times> 's" where
  "createOrUpdateUser_via_service R U uuid now st claims =
     (let cmd = \<lparr>cmd_Auth0UserID = c_Sub claims, cmd_Email = c_Email claims,
                 cmd_Name = c_Name claims, cmd_Picture = c_Picture claims,
                 cmd_EmailVerified = c_EmailVerified claims\<rparr>
      in case RegisterOrUpdateUserFromAuth R U uuid now st cmd of
           (Inl err, st') \<Rightarrow> (Inl (Wrap ''failed to register or update user'' err), st')
         | (Inr user, st') \<Rightarrow> (Inr user, st'))"

text \<open>
  \<open>HandleCallback(ctx, code, state)\<close> of callback_handler.go, the handler constructed
  with the repository. Its parameter \<open>state\<close> is not used in the body.
\<close>

definition HandleCallback ::
  "('s, User) UserRepository \<Rightarrow> unicode_tables \<Rightarrow> identity_provider \<Rightarrow> string \<Rightarrow> time \<Rightarrow> 's
     \<Rightarrow> string \<Rightarrow> string \<Rightarrow> (app_error + SessionData) \<times> 's" where
  "HandleCallback R U idp uuid now st code state =
     (case Exchange idp code of
        Inl err \<Rightarrow> (Inl (Wrap ''failed to exchange token'' (ProviderError err)), st)
      | Inr oauth2Token \<Rightarrow>
     (case t_id_token oauth2Token of
        None \<Rightarrow> (Inl (Plain ''no id_token field in oauth2 token''), st)
      | Some rawIDToken \<Rightarrow>
     (case Verify idp rawIDToken of
        Inl err \<Rightarrow> (Inl (Wrap ''failed to verify ID token'' (ProviderError err)), st)
      | Inr (Inl err) \<Rightarrow> (Inl (Wrap ''failed to parse claims'' (ProviderError err)), st)
      | Inr (Inr claims) \<Rightarrow>
     (case createOrUpdateUser R U uuid now st claims of
        (Inl err, st') \<Rightarrow> (Inl (Wrap ''failed to create or update user'' err), st')
      | (Inr user, st') \<Rightarrow>
          (Inr \<lparr>sd_UserID = u_id user, sd_Auth0UserID = u_auth0UserID user,
                sd_Email = email_value (u_email user),
                sd_Name = displayName (u_profile user),
                sd_ExpiresAt = t_Expiry oauth2Token,
                sd_AccessToken = t_AccessToken oauth2Token,
                sd_RefreshToken = t_RefreshToken oauth2Token\<rparr>, st')))))"

text \<open>
  \<open>HandleCallback\<close> of the handler constructed with the user service (the one
  \<open>NewAuthHandler\<close> in routes.go builds): the same steps, with the user service behind
  \<open>createOrUpdateUser\<close>.
\<close>

definition HandleCallback_via_service ::
  "('s, User) UserRepository \<Rightarrow> unicode_tables \<Rightarrow> identity_provider \<Rightarrow> string \<Rightarrow> time \<Rightarrow> 's
     \<Rightarrow> string \<Rightarrow> string \<Rightarrow> (app_error + SessionData) \<times> 's" where
  "HandleCallback_via_service R U idp uuid now st code state =
     (case Exchange idp code of
        Inl err \<Rightarrow> (Inl (Wrap ''failed to exchange token'' (ProviderError err)), st)
      | Inr oauth2Token \<Rightarrow>
     (case t_id_token oauth2Token of
        None \<Rightarrow> (Inl (Plain ''no id_token field in oauth2 token''), st)
      | Some rawIDToken \<Rightarrow>
     (case Verify idp rawIDToken of
        Inl err \<Rightarrow> (Inl (Wrap ''failed to verify ID token'' (ProviderError err)), st)
      | Inr (Inl err) \<Rightarrow> (Inl (Wrap ''failed to parse claims'' (ProviderError err)), st)
      | Inr (Inr claims) \<Rightarrow>
     (case createOrUpdateUser_via_service R U uuid now st claims of
        (Inl err, st') \<Rightarrow> (Inl (Wrap ''failed to create or update user'' err), st')
      | (Inr user, st') \<Rightarrow>
          (Inr \<lparr>sd_UserID = u_id user, sd_Auth0UserID = u_auth0UserID user,
                sd_Email = email_value (u_email user),
                sd_Name = displayName (u_profile user),
                sd_ExpiresAt = t_Expiry oauth2Token,
                sd_AccessToken = t_AccessToken oauth2Token,
                sd_RefreshToken = t_RefreshToken oauth2Token\<rparr>, st')))))"

text \<open>
  A request is its query parameters (\<open>c.QueryParam\<close>: empty when absent) and its cookies;
  a response is a redirect with, possibly, a cookie set on it.
\<close>

record Request =
  q_code :: string
  q_state :: string
  q_error :: string
  q_error_description :: string
  req_cookies :: "string \<rightharpoonup> string"

record Response =
  resp_status :: nat
  resp_location :: string
  resp_cookie :: "Cookie option"

definition Redirect :: "nat \<Rightarrow> string \<Rightarrow> Response" where
  "Redirect code url = \<lparr>resp_status = code, resp_location = url, resp_cookie = None\<rparr>"

definition StatusTemporaryRedirect :: nat where
  "StatusTemporaryRedirect = 307"

text \<open>
  \<open>AuthHandler.SignIn\<close> (GET /auth/login, routes.go). The source: \<open>state := "state" //
  TODO: Generate secure random state\<close>.
\<close>

definition SignIn :: "identity_provider \<Rightarrow> Request \<Rightarrow> Response" where
  "SignIn idp req =
     (let state = ''state'';
          loginURL = GetLoginURL idp state
      in Redirect StatusTemporaryRedirect loginURL)"

text \<open>
  \<open>Auth0Handler.SignIn\<close> (internal/shared/interfaces/auth0_handler.go):
  \<open>h.authService.GetLoginURL("state")\<close>.
\<close>

definition Auth0Handler_SignIn :: "identity_provider \<Rightarrow> Request \<Rightarrow> Response" where
  "Auth0Handler_SignIn idp req =
     (let loginURL = GetLoginURL idp ''state''
      in Redirect StatusTemporaryRedirect loginURL)"

definition frontendURL :: "environ \<Rightarrow> string" where
  "frontendURL env =
     (if env ''FRONTEND_URL'' = [] then ''http://localhost:3000'' else env ''FRONTEND_URL'')"

text \<open>\<open>AuthHandler.Callback\<close> (GET /auth/callback).\<close>

definition Callback ::
  "('s, User) UserRepository \<Rightarrow> unicode_tables \<Rightarrow> identity_provider \<Rightarrow> CookieStore \<Rightarrow> environ
     \<Rightarrow> string \<Rightarrow> time \<Rightarrow> 's \<Rightarrow> Request \<Rightarrow> Response \<times> 's" where
  "Callback R U idp sessionStore env uuid now st req =
     (let code = q_code req; state = q_state req; errorParam = q_error req;
          errorDesc = q_error_description req
      in
      if errorParam \<noteq> [] then
        (Redirect StatusTemporaryRedirect
           (frontendURL env @ ''/?error='' @ errorParam @ ''&error_description='' @ errorDesc),
         st)
      else if code = [] then
        (Redirect StatusTemporaryRedirect (frontendURL env @ ''/?error=no_code''), st)
      else
        (case HandleCallback_via_service R U idp uuid now st code state of
           (Inl err, st') \<Rightarrow>
             (Redirect StatusTemporaryRedirect (frontendURL env @ ''/?error=auth_failed''), st')
         | (Inr sessionData, st') \<Rightarrow>
             (case SetSession sessionStore now sessionData of
                Inl err \<Rightarrow>
                  (Redirect StatusTemporaryRedirect
                     (frontendURL env @ ''/?error=session_failed''), st')
              | Inr cookie \<Rightarrow>
                  ((Redirect StatusTemporaryRedirect (frontendURL env @ ''/''))
                     \<lparr>resp_cookie := Some cookie\<rparr>, st'))))"

text \<open>
  An identity provider for the examples: it accepts the code \<open>code-1\<close> and returns a
  token set whose ID token verifies to \<open>alice_claims\<close>.
\<close>

definition example_token :: Token where
  "example_token =
     \<lparr>t_AccessToken = ''at'', t_RefreshToken = ''rt'', t_Expiry = 5000,
      t_id_token = Some ''header.payload.signature''\<rparr>"

definition example_provider :: identity_provider where
  "example_provider =
     \<lparr>AuthCodeURL = (\<lambda>state.
        ''https://tenant.auth0.com/authorize?access_type=offline&client_id=client''
        @ ''&response_type=code&scope=openid+profile+email&state='' @ state),
      Exchange = (\<lambda>code. if code = ''code-1'' then Inr example_token
                          else Inl ''oauth2: cannot fetch token: 403 Forbidden''),
      Verify = (\<lambda>raw. if raw = ''header.payload.signature'' then Inr (Inr alice_claims)
                        else Inl ''oidc: malformed jwt'')\<rparr>"

definition login_request :: Request where
  "login_request =
     \<lparr>q_code = [], q_state = [], q_error = [], q_error_description = [],
      req_cookies = Map.empty\<rparr>"

definition forged_callback :: Request where
  "forged_callback =
     \<lparr>q_code = ''code-1'', q_state = ''chosen-by-the-attacker'', q_error = [],
      q_error_description = [], req_cookies = Map.empty\<rparr>"

section \<open>Facts about the regexp engine\<close>

lemma full_match_Never: "\<not> full_match Never w"
  by (induction w) auto

lemma full_match_Empty: "full_match Empty w = (w = [])"
  by (cases w) (auto simp: full_match_Never)

lemma full_match_Class: "full_match (Class rs) w = (\<exists>c. w = [c] \<and> in_class rs c)"
  by (cases w) (auto simp: full_match_Never full_match_Empty)

lemma sublist_single: "sublist [c] ys = (c \<in> set ys)"
  by (induction ys) (auto simp: sublist_Cons_right)

text \<open>A one-class pattern is found in a text iff some rune of the text is in the class.\<close>

lemma MatchString_Class: "MatchString (Class rs) s = (\<exists>c \<in> set s. in_class rs c)"
  by (auto simp: MatchString_def list_ex_iff full_match_Class sublist_single)

lemma in_class_one_of: "in_class (one_of s) (of_char c) = (c \<in> set s)"
  by (induction s) (auto simp: in_class_def one_of_def)

lemma in_class_from_to: "in_class [from_to a b] n = (of_char a \<le> n \<and> n \<le> of_char b)"
  by (simp add: in_class_def from_to_def)

lemma char_range:
  assumes "map of_char s = [lo..<Suc hi]"
  shows "(c \<in> set s) = (lo \<le> (of_char c :: nat) \<and> of_char c \<le> hi)"
proof -
  have "(c \<in> set s) = ((of_char c :: nat) \<in> set (map of_char s))"
    by (auto simp: image_iff)
  also have "\<dots> = (lo \<le> (of_char c :: nat) \<and> of_char c \<le> hi)"
    unfolding assms by auto
  finally show ?thesis .
qed

section \<open>NewPassword\<close>

lemma upper_list: "map of_char ''ABCDEFGHIJKLMNOPQRSTUVWXYZ'' = [65..<Suc (90::nat)]"
  by (simp add: upt_rec_numeral)

lemma lower_list: "map of_char ''abcdefghijklmnopqrstuvwxyz'' = [97..<Suc (122::nat)]"
  by (simp add: upt_rec_numeral)

lemma digit_list: "map of_char ''0123456789'' = [48..<Suc (57::nat)]"
  by (simp add: upt_rec_numeral)

lemma has_upper: "MatchString uppercasePattern (runes s) = (\<exists>c \<in> set s. c \<in> uppercase_letters)"
  unfolding uppercasePattern_def MatchString_Class runes_def uppercase_letters_def
    in_class_from_to char_range[OF upper_list]
  by simp

lemma has_lower: "MatchString lowercasePattern (runes s) = (\<exists>c \<in> set s. c \<in> lowercase_letters)"
  unfolding lowercasePattern_def MatchString_Class runes_def lowercase_letters_def
    in_class_from_to char_range[OF lower_list]
  by simp

lemma has_digit: "MatchString digitPattern (runes s) = (\<exists>c \<in> set s. c \<in> digits)"
  unfolding digitPattern_def MatchString_Class runes_def digits_def
    in_class_from_to char_range[OF digit_list]
  by simp

lemma has_special:
  "MatchString specialCharPattern (runes s) = (\<exists>c \<in> set s. c \<in> special_characters)"
  unfolding specialCharPattern_def MatchString_Class runes_def special_characters_def
  by (simp add: in_class_one_of)

lemmas password_checks = has_upper has_lower has_digit has_special

text \<open>
  C7. \<open>NewPassword\<close> succeeds exactly on the strings of at least 8 bytes that hold an
  uppercase letter, a lowercase letter, a digit and a special character of the fixed set;
  otherwise its error is that of the first rule, in the order TooShort, MissingUppercase,
  MissingLowercase, MissingDigit, MissingSpecialChar, that the string breaks.
\<close>

theorem NewPassword_policy:
  "NewPassword raw =
     (case first_failing_rule password_rules raw of
        Some e \<Rightarrow> Inl e
      | None \<Rightarrow> Inr \<lparr>pw_value = raw\<rparr>)
   \<and> (\<exists>p. NewPassword raw = Inr p) =
     (8 \<le> length raw \<and> (\<exists>c \<in> set raw. c \<in> uppercase_letters)
      \<and> (\<exists>c \<in> set raw. c \<in> lowercase_letters) \<and> (\<exists>c \<in> set raw. c \<in> digits)
      \<and> (\<exists>c \<in> set raw. c \<in> special_characters))"
  by (auto simp: NewPassword_def password_rules_def password_checks MinLength_def)

text \<open>The cases of the repository's password tests.\<close>

lemma NewPassword_tests:
  "NewPassword ''ValidPass123!'' = Inr \<lparr>pw_value = ''ValidPass123!''\<rparr>"
  "NewPassword ''Short1!'' = Inl TooShort"
  "NewPassword ''validpass123!'' = Inl MissingUppercase"
  "NewPassword ''VALIDPASS123!'' = Inl MissingLowercase"
  "NewPassword ''ValidPass!'' = Inl MissingDigit"
  "NewPassword ''ValidPass123'' = Inl MissingSpecialChar"
  by (simp_all add: NewPassword_def password_checks MinLength_def uppercase_letters_def
      lowercase_letters_def digits_def special_characters_def)

section \<open>What a pattern can read\<close>

lemma dead_not_empty: "dead r \<Longrightarrow> \<not> accepts_empty r"
  by (induction r) auto

lemma dead_after: "dead r \<Longrightarrow> dead (after c r)"
  by (induction r) (auto simp: dead_not_empty)

lemma dead_no_match: "dead r \<Longrightarrow> \<not> full_match r w"
  by (induction w arbitrary: r) (auto simp: dead_not_empty dead_after)

lemma unreadable_dead: "\<not> may_read r c \<Longrightarrow> dead (after c r)"
  by (induction r) auto

lemma may_read_after: "may_read (after d r) c \<Longrightarrow> may_read r c"
  by (induction r) (auto split: if_splits)

lemma full_match_reads: "full_match r w \<Longrightarrow> c \<in> set w \<Longrightarrow> may_read r c"
proof (induction w arbitrary: r)
  case Nil
  then show ?case by simp
next
  case (Cons d w)
  from Cons.prems(1) have m: "full_match (after d r) w" by simp
  show ?case
  proof (cases "c = d")
    case True
    show ?thesis
    proof (rule ccontr)
      assume "\<not> may_read r c"
      then have "dead (after d r)" using True unreadable_dead by simp
      with m show False using dead_no_match by blast
    qed
  next
    case False
    with Cons.prems(2) have "c \<in> set w" by simp
    then have "may_read (after d r) c" using Cons.IH m by blast
    then show ?thesis by (rule may_read_after)
  qed
qed

section \<open>NewEmail\<close>

lemma emailRegex_reads:
  "may_read emailRegex c \<Longrightarrow>
     (97 \<le> c \<and> c \<le> 122) \<or> (65 \<le> c \<and> c \<le> 90) \<or> (48 \<le> c \<and> c \<le> 57)
     \<or> c \<in> {46, 95, 43, 45, 64}"
  by (auto simp: emailRegex_def OneOrMore_def TwoOrMore_def Lit_def in_class_def from_to_def one_of_def)

lemma emailRegex_nonempty: "\<not> full_match emailRegex []"
  by (simp add: emailRegex_def OneOrMore_def TwoOrMore_def Lit_def)

lemma dropWhile_none: "\<forall>c \<in> set xs. \<not> P c \<Longrightarrow> dropWhile P xs = xs"
  by (cases xs) auto

lemma TrimSpace_id: "\<forall>c \<in> set s. \<not> IsSpace U c \<Longrightarrow> TrimSpace U s = s"
  by (simp add: TrimSpace_def dropWhile_none)

lemma ToLower_rune_not_capital:
  "lower_never_capital U \<Longrightarrow> \<not> (65 \<le> ToLower_rune U r \<and> ToLower_rune U r \<le> 90)"
  by (auto simp: lower_never_capital_def ToLower_rune_def)

text \<open>
  C9. Where \<open>NewEmail\<close> succeeds on \<open>x\<close>, it succeeds on the value of the resulting
  Email and returns the same Email: trimming, lower-casing and validating a normalized
  address changes nothing. (The Unicode lower-case table is a parameter, assumed not to
  map a non-ASCII rune to an ASCII capital letter.)
\<close>

theorem NewEmail_idempotent:
  assumes U: "lower_never_capital U" and ok: "NewEmail U x = Inr e"
  shows "NewEmail U (email_value e) = Inr e"
proof -
  define v where "v = ToLower U (TrimSpace U x)"
  from ok have ne: "TrimSpace U x \<noteq> []" and valid: "isValidEmail v" and e: "e = \<lparr>email_value = v\<rparr>"
    by (auto simp: NewEmail_def Let_def v_def split: if_splits)
  from valid have fm: "full_match emailRegex v"
    by (auto simp: isValidEmail_def MatchString_anchored_def split: if_splits)
  have reads: "\<And>c. c \<in> set v \<Longrightarrow> may_read emailRegex c"
    using fm full_match_reads by blast
  have nospace: "\<forall>c \<in> set v. \<not> IsSpace U c"
    using reads emailRegex_reads by (fastforce simp: IsSpace_def)
  have lower: "\<forall>c \<in> set v. ToLower_rune U c = c"
  proof
    fix c assume c: "c \<in> set v"
    then obtain r where "c = ToLower_rune U r" by (auto simp: v_def ToLower_def)
    then have "\<not> (65 \<le> c \<and> c \<le> 90)" using ToLower_rune_not_capital[OF U] by simp
    moreover have "c < 128" using emailRegex_reads[OF reads[OF c]] by auto
    ultimately show "ToLower_rune U c = c" by (simp add: ToLower_rune_def)
  qed
  have t: "TrimSpace U v = v" using nospace by (rule TrimSpace_id)
  have l: "ToLower U v = v" using lower by (simp add: ToLower_def map_idI)
  have "v \<noteq> []" using fm emailRegex_nonempty by auto
  then show ?thesis using t l valid e by (simp add: NewEmail_def)
qed

lemmas email_eval =
  NewEmail_def runes_def TrimSpace_def IsSpace_def ToLower_def ToLower_rune_def
  isValidEmail_def MatchString_anchored_def emailRegex_def OneOrMore_def TwoOrMore_def
  Lit_def in_class_def from_to_def one_of_def Contains_def HasPrefix_def HasSuffix_def
  sublist_Cons_right suffix_to_prefix Let_def sample_tables_def

lemma sample_tables_ok: "lower_never_capital sample_tables"
  by (auto simp: lower_never_capital_def sample_tables_def)

lemma NewEmail_examples:
  "NewEmail sample_tables (runes ''  Alice@Example.COM '') =
     Inr \<lparr>email_value = runes ''alice@example.com''\<rparr>"
  "NewEmail sample_tables (runes ''a..b@example.com'') = Inl InvalidFormat"
  "NewEmail sample_tables (runes ''.a@example.com'') = Inl InvalidFormat"
  "NewEmail sample_tables (runes ''a@example.c'') = Inl InvalidFormat"
  "NewEmail sample_tables ([0x212A] @ runes ''@example.com'') =
     Inr \<lparr>email_value = runes ''k@example.com''\<rparr>"
  "NewEmail sample_tables (runes ''   '') = Inl EmptyInput"
  by (simp_all add: email_eval)

theorem NewEmail_idempotent_witness:
  "lower_never_capital sample_tables
   \<and> NewEmail sample_tables (runes ''  Alice@Example.COM '') =
       Inr \<lparr>email_value = runes ''alice@example.com''\<rparr>
   \<and> NewEmail sample_tables (runes ''alice@example.com'') =
       Inr \<lparr>email_value = runes ''alice@example.com''\<rparr>"
proof -
  have h: "NewEmail sample_tables (runes ''  Alice@Example.COM '') =
            Inr \<lparr>email_value = runes ''alice@example.com''\<rparr>"
    by (simp add: email_eval)
  from NewEmail_idempotent [OF sample_tables_ok h]
  have "NewEmail sample_tables (runes ''alice@example.com'') =
          Inr \<lparr>email_value = runes ''alice@example.com''\<rparr>"
    by simp
  with h sample_tables_ok show ?thesis by blast
qed

section \<open>The users table keeps its constraints\<close>

lemma length_runes: "length (runes s) = length s"
  by (simp add: runes_def)

lemmas repo_eval =
  PostgresUserRepository_def pg_Save_def pg_row_def varchar_def utf8_length_def length_runes
  timestamptz_def
  example_pool_def canonical_uuid_def hextable_def pg_FindByEmail_def pg_FindByID_def
  pg_FindByAuth0UserID_def QueryRow_def reconstructUser_def FromSnapshot_def row_of_def
  auth0_user_id_taken_def email_taken_def NewUser_def NewProfile_def UpdateProfile_def
  VerifyEmail_def

lemma runes_Nil: "(runes s = []) = (s = [])"
  by (simp add: runes_def)

lemma alice_email_ok:
  "NewEmail sample_tables (runes ''a@example.com'') = Inr alice_email"
  by (simp add: email_eval alice_email_def)

lemma local_registration:
  "RegisterUser_Execute (PostgresUserRepository example_pool sample_tables) sample_tables alice_id 1000 []
      (runes ''a@example.com'') ''Passw0rd!''
   = (Inr (unlinked_user\<lparr>u_events := [UserRegistered alice_id (runes ''a@example.com'') 1000]\<rparr>),
      unlinked_table)"
  unfolding RegisterUser_Execute_def
  by (simp add: alice_email_ok repo_eval unlinked_user_def unlinked_table_def alice_email_def runes_Nil)

lemma unlinked_found:
  "pg_FindByEmail example_pool sample_tables unlinked_table alice_email = Inr unlinked_user"
  "pg_FindByAuth0UserID example_pool sample_tables unlinked_table ''idp|abc123'' = Inl ErrUserNotFound"
  using alice_email_ok
  by (simp_all add: repo_eval unlinked_user_def unlinked_table_def alice_email_def)







text \<open>
  The column types refuse what does not fit them: an e-mail address of 256 letters, or an
  id that is no UUID, is not stored.
\<close>

lemma pg_Save_refuses_long_email:
  "255 < length (email_value (u_email u)) \<Longrightarrow> last (email_value (u_email u)) \<noteq> 32 \<Longrightarrow>
     \<exists>e. pg_Save pool now tbl u = Inl e"
proof -
  assume len: "255 < length (email_value (u_email u))" and l: "last (email_value (u_email u)) \<noteq> 32"
  let ?s = "email_value (u_email u)"
  have ne: "drop (length ?s - (length ?s - 255)) ?s \<noteq> []" using len by simp
  have "last (drop (length ?s - (length ?s - 255)) ?s) = last ?s"
    using len by (intro last_drop) simp
  with ne l have "\<not> list_all (\<lambda>c. c = 32) (drop (length ?s - (length ?s - 255)) ?s)"
    by (metis (mono_tags, lifting) last_in_set list_all_iff)
  with len have "varchar length 32 255 ?s = None" by (simp add: varchar_def Let_def)
  then show ?thesis
    by (simp add: pg_Save_def pg_row_def split: option.splits)
qed

lemma pg_Save_refuses_other_id:
  "pg_Save example_pool now tbl (u\<lparr>u_id := ''not-a-uuid''\<rparr>) =
     Inl (StorageError ''invalid input syntax for type uuid'')"
  by (simp add: pg_Save_def pg_row_def example_pool_def canonical_uuid_def)





lemma pg_rejects_second_user:
  "pg_Save example_pool 2000 unlinked_table second_user =
     Inl (StorageError ''duplicate key value violates unique constraint users_email_key'')"
  by (simp add: repo_eval unlinked_table_def second_user_def alice_email_def)

section \<open>Hash and VerifyHash\<close>

lemma upto16: "[0..<16] = [0, 1, 2, 3, 4, 5, 6, 7, 8, 9, 10, 11, 12, 13, 14, 15::nat]"
  by (simp add: upt_conv_Cons)

lemma hexdigits:
  "\<forall>n \<in> set [0..<16]. fromHexChar (hextable ! n) = Some n \<and> hextable ! n \<noteq> CHR '':''"
  unfolding upto16 by (simp add: hextable_def fromHexChar_def)

lemma fromHexChar_hextable: "n < 16 \<Longrightarrow> fromHexChar (hextable ! n) = Some n"
  using hexdigits by simp

lemma hextable_no_colon: "n < 16 \<Longrightarrow> CHR '':'' \<noteq> hextable ! n"
  using hexdigits by fastforce

lemma byte_nibbles: "(of_char (b::char) :: nat) div 16 < 16" "(of_char b :: nat) mod 16 < 16"
proof -
  have "(of_char b :: nat) < 256" by (rule nat_of_char_less_256)
  then show "(of_char (b::char) :: nat) div 16 < 16" by (simp add: less_mult_imp_div_less)
  show "(of_char b :: nat) mod 16 < 16" by simp
qed

lemma Decode_Encode: "DecodeString (EncodeToString bs) = Some bs"
  by (induction bs) (simp_all add: fromHexChar_hextable byte_nibbles)

lemma Encode_no_colon: "CHR '':'' \<notin> set (EncodeToString bs)"
  by (induction bs) (simp_all add: hextable_no_colon byte_nibbles)

lemma Split_no_sep: "sep \<notin> set s \<Longrightarrow> Split s sep = [s]"
  by (induction s) auto

lemma Split_at_sep: "sep \<notin> set a \<Longrightarrow> Split (a @ sep # b) sep = a # Split b sep"
  by (induction a) auto

lemma VerifyHash_Hash:
  "VerifyHash K pw2 (EncodeToString salt @ CHR '':'' # EncodeToString (K pw salt HashIterations HashKeyLength))
   = (K pw2 salt HashIterations HashKeyLength = K pw salt HashIterations HashKeyLength)"
  by (auto simp: VerifyHash_def Split_at_sep Split_no_sep Encode_no_colon Decode_Encode)

lemma VerifyHash_InvalidHashFormat: "VerifyHash K ''ValidPass123!'' ''invalid-hash-format'' = False"
  by (simp add: VerifyHash_def)

text \<open>
  C8, as amended. Whatever salt \<open>rand.Read\<close> delivers, \<open>Hash\<close> returns a string \<open>h\<close> that
  \<open>VerifyHash\<close> accepts for the hashed password itself; and for any other candidate
  \<open>pw2\<close>, \<open>VerifyHash pw2 h\<close> is true exactly when PBKDF2 derives the same key from
  \<open>pw2\<close> as from the hashed password under the stored salt, so it is false unless the two
  passwords collide under the key derivation.
\<close>

theorem Hash_VerifyHash:
  "\<exists>h. Hash K (Some salt) p = Inr h \<and> VerifyHash K (pw_value p) h
     \<and> (\<forall>pw2. VerifyHash K pw2 h =
          (K pw2 salt HashIterations HashKeyLength = K (pw_value p) salt HashIterations HashKeyLength))"
  by (simp add: Hash_def VerifyHash_Hash)

text \<open>
  The HMAC key block of a password shorter than the block of the hash is the password
  followed by zero bytes, so appending a zero byte to such a password changes neither the
  block nor any key derived with it.
\<close>

lemma hmac_New_zero_padded:
  assumes "length key < h_BlockSize h"
  shows "hmac_New h (key @ [CHR 0x00]) = hmac_New h key"
proof -
  from assms obtain n where n: "h_BlockSize h - length key = Suc n"
    by (metis Suc_diff_Suc)
  then have "h_BlockSize h - Suc (length key) = n" by simp
  with assms n show ?thesis by (simp add: hmac_New_def Let_def)
qed

lemma pbkdf2_Key_zero_padded:
  "length pw < h_BlockSize h \<Longrightarrow>
     pbkdf2_Key h (pw @ [CHR 0x00]) salt iter keyLen = pbkdf2_Key h pw salt iter keyLen"
  by (simp add: pbkdf2_Key_def hmac_New_zero_padded)

text \<open>
  As the specification states it, "\<open>VerifyHash(pw2, Hash(pw))\<close> is false for any
  \<open>pw2 \<noteq> pw\<close>", the property fails at the password of the repository's tests: whatever
  the salt, the hash of "ValidPass123!" verifies for the 14-byte candidate made of that
  password and a zero byte (which passes \<open>NewPassword\<close> as well).
\<close>

theorem VerifyHash_accepts_padded_password:
  "\<forall>sha512 salt. \<exists>p h.
      NewPassword ''ValidPass123!'' = Inr p
      \<and> Hash (pbkdf2_Key (sha512_New sha512)) (Some salt) p = Inr h
      \<and> ''ValidPass123!'' @ [CHR 0x00] \<noteq> pw_value p
      \<and> (\<exists>p2. NewPassword (''ValidPass123!'' @ [CHR 0x00]) = Inr p2)
      \<and> VerifyHash (pbkdf2_Key (sha512_New sha512)) (''ValidPass123!'' @ [CHR 0x00]) h"
proof (intro allI)
  fix sha512 salt
  let ?K = "pbkdf2_Key (sha512_New sha512)"
  let ?p = "\<lparr>pw_value = ''ValidPass123!''\<rparr>"
  let ?h = "EncodeToString salt @ CHR '':'' # EncodeToString (?K ''ValidPass123!'' salt HashIterations HashKeyLength)"
  have v: "NewPassword ''ValidPass123!'' = Inr ?p" by (rule NewPassword_tests(1))
  have h: "Hash ?K (Some salt) ?p = Inr ?h" by (simp add: Hash_def)
  have "length ''ValidPass123!'' < h_BlockSize (sha512_New sha512)" by (simp add: sha512_New_def)
  then have "?K (''ValidPass123!'' @ [CHR 0x00]) salt HashIterations HashKeyLength
             = ?K ''ValidPass123!'' salt HashIterations HashKeyLength"
    by (rule pbkdf2_Key_zero_padded)
  then have "VerifyHash ?K (''ValidPass123!'' @ [CHR 0x00]) ?h" by (simp only: VerifyHash_Hash)
  moreover have "\<exists>p2. NewPassword (''ValidPass123!'' @ [CHR 0x00]) = Inr p2"
    by (simp add: NewPassword_def password_checks MinLength_def uppercase_letters_def
        lowercase_letters_def digits_def special_characters_def)
  ultimately show "\<exists>p h. NewPassword ''ValidPass123!'' = Inr p
      \<and> Hash ?K (Some salt) p = Inr h
      \<and> ''ValidPass123!'' @ [CHR 0x00] \<noteq> pw_value p
      \<and> (\<exists>p2. NewPassword (''ValidPass123!'' @ [CHR 0x00]) = Inr p2)
      \<and> VerifyHash ?K (''ValidPass123!'' @ [CHR 0x00]) h"
    using v h by (intro exI[of _ ?p] exI[of _ ?h]) simp
qed

section \<open>Start-up and the session secret\<close>

text \<open>
  C5. \<open>NewCookieStore\<close> succeeds exactly when the configured \<open>SESSION_SECRET\<close> has 32
  bytes, and otherwise returns one of its two configuration errors; \<open>main\<close> builds the
  store while it starts up and reaches \<open>e.Start\<close> (serves requests) only if every
  initialisation succeeded, so with a secret of any other length it ends in
  \<open>logger.Fatal\<close> before a request is served.
\<close>

theorem NewCookieStore_secret_length:
  "((\<exists>cs. NewCookieStore New env = Inr cs) = (length (env ''SESSION_SECRET'') = 32))
   \<and> (length (env ''SESSION_SECRET'') = 32
        \<or> NewCookieStore New env = Inl ''SESSION_SECRET environment variable is required''
        \<or> NewCookieStore New env = Inl ''SESSION_SECRET must be exactly 32 bytes'')
   \<and> ((\<exists>cs cfg. main_startup ext New env = Serving cs cfg) =
        (logger_Initialize ext = None \<and> postgres_NewClient ext = None
         \<and> length (env ''SESSION_SECRET'') = 32 \<and> (\<exists>cfg. NewConfig env = Inr cfg)
         \<and> oidc_NewProvider ext = None \<and> auth0_NewAuthService ext = None))"
proof -
  have a: "(\<exists>cs. NewCookieStore New env = Inr cs) = (length (env ''SESSION_SECRET'') = 32)"
    by (auto simp: NewCookieStore_def Let_def)
  have b: "length (env ''SESSION_SECRET'') = 32
        \<or> NewCookieStore New env = Inl ''SESSION_SECRET environment variable is required''
        \<or> NewCookieStore New env = Inl ''SESSION_SECRET must be exactly 32 bytes''"
    by (auto simp: NewCookieStore_def Let_def)
  have c: "(\<exists>cs cfg. main_startup ext New env = Serving cs cfg) =
        (logger_Initialize ext = None \<and> postgres_NewClient ext = None
         \<and> (\<exists>cs. NewCookieStore New env = Inr cs) \<and> (\<exists>cfg. NewConfig env = Inr cfg)
         \<and> oidc_NewProvider ext = None \<and> auth0_NewAuthService ext = None)"
    by (auto simp: main_startup_def split: option.splits sum.splits)
  show ?thesis using a b c by simp
qed

lemma startup_31_byte_secret:
  "main_startup all_up New (example_env ''0123456789abcdef0123456789abcde'') =
     Fatal ''Failed to create session store'' ''SESSION_SECRET must be exactly 32 bytes''"
  by (simp add: main_startup_def all_up_def example_env_def NewCookieStore_def)

lemma startup_32_byte_secret:
  "\<exists>cs cfg. main_startup all_up New (example_env ''0123456789abcdef0123456789abcdef'') = Serving cs cfg"
  by (simp add: main_startup_def all_up_def example_env_def NewCookieStore_def NewConfig_def Let_def)

section \<open>Session issuance and validation\<close>



lemmas session_eval =
  SetSession_def GetSession_def example_store_def example_codec_def tableCodec_def
  alice_session_def example_cookie_def Add_def After_def Second_def Duration_times_def


lemma example_issue: "SetSession example_store 1000 alice_session = Inr example_cookie"
  by (simp add: session_eval)

lemma example_store_from_env:
  "NewCookieStore (\<lambda>key. example_codec) (example_env ''0123456789abcdef0123456789abcdef'')
     = Inr example_store"
  by (simp add: NewCookieStore_def example_env_def example_store_def getEnvOrDefault_def
      getEnvBoolOrDefault_def getEnvIntOrDefault_def)









section \<open>Reconciliation: what each handler does\<close>

text \<open>
  The handler on the Provisional/Active aggregate carries out the step from a provisional
  to an active user: for claims whose subject id no stored user is linked to and whose
  normalized e-mail address is that of a stored provisional user, it saves and returns an
  active user with the provisional user's id, linked to the subject id of the claims,
  with the verification flag, name and picture of the claims, and exactly one
  \<open>EmailVerified\<close> event appended to the user's events.
\<close>

lemma activating_handler_links_provisional_user:
  assumes unlinked_sub: "FindByAuth0UserID R st (c_Sub claims) = Inl e"
      and email: "NewEmail U (c_Email claims) = Inr email"
      and found: "FindByEmail R st email = Inr (Provisional p)"
      and saved: "\<And>a. a_id a = p_id p \<Longrightarrow> Save R now st (Active a) = Inr (st' a)"
  shows "\<exists>a. createOrUpdateUser_activating R U uuid now st claims = (Inr (Active a), st' a)
           \<and> a_id a = p_id p
           \<and> a_auth0UserID a = c_Sub claims
           \<and> a_email a = p_email p
           \<and> a_emailVerified a = c_EmailVerified claims
           \<and> a_profile a = \<lparr>displayName = c_Name claims, bio = [], profileImageURL = c_Picture claims\<rparr>
           \<and> a_events a = p_events p @ [EmailVerified (p_id p) (email_value (p_email p)) now]"
  unfolding createOrUpdateUser_activating_def
  using unlinked_sub email found saved
  by (simp add: IsProvisional_def ActivateUser_def Active_UpdateProfile_def NewProfile_def Let_def)

text \<open>
  The scenario of the specification at that handler: the stored provisional user with
  the address \<open>a@example.com\<close> becomes the active user with the same id, linked to
  \<open>idp|abc123\<close>, and \<open>EmailVerified\<close> is emitted once.
\<close>

lemma activating_handler_scenario:
  "createOrUpdateUser_activating list_repository sample_tables fresh_id 2000
      [Provisional provisional_alice] alice_claims
   = (Inr (Active \<lparr>a_id = alice_id, a_auth0UserID = ''idp|abc123'', a_email = alice_email,
                    a_profile = \<lparr>displayName = ''Alice'', bio = [],
                                  profileImageURL = ''https://img.example/a.png''\<rparr>,
                    a_emailVerified = True, a_createdAt = 1000, a_verifiedAt = Some 2000,
                    a_updatedAt = 2000,
                    a_events = [EmailVerified alice_id (runes ''a@example.com'') 2000]\<rparr>),
      [Active \<lparr>a_id = alice_id, a_auth0UserID = ''idp|abc123'', a_email = alice_email,
               a_profile = \<lparr>displayName = ''Alice'', bio = [],
                             profileImageURL = ''https://img.example/a.png''\<rparr>,
               a_emailVerified = True, a_createdAt = 1000, a_verifiedAt = Some 2000,
               a_updatedAt = 2000,
               a_events = [EmailVerified alice_id (runes ''a@example.com'') 2000]\<rparr>])"
  unfolding createOrUpdateUser_activating_def
  using alice_email_ok
  by (simp add: alice_claims_def list_repository_def provisional_alice_def IsProvisional_def
      ActivateUser_def Active_UpdateProfile_def NewProfile_def ID_def alice_email_def Let_def)

lemma linked_found:
  "pg_FindByAuth0UserID example_pool sample_tables linked_table ''idp|abc123'' = Inr linked_user"
  using alice_email_ok
  by (simp add: repo_eval linked_user_def linked_table_def alice_email_def)

text \<open>
  C1, at the user service that \<open>main\<close> wires to the callback handler. The users table
  holds a locally registered user with the address \<open>a@example.com\<close> and no subject id,
  and no user linked to \<open>idp|abc123\<close>. \<open>RegisterOrUpdateUserFromAuth\<close> for the claims
  \<open>{sub: idp|abc123, email: a@example.com, emailVerified: true}\<close> does not look the
  address up: it builds a new user with a fresh id, the table rejects it for the
  duplicate address, and the call returns that error; the stored user stays unlinked.
\<close>

theorem service_does_not_link_unlinked_user:
  "pg_FindByEmail example_pool sample_tables unlinked_table alice_email = Inr unlinked_user
   \<and> u_auth0UserID unlinked_user = []
   \<and> pg_FindByAuth0UserID example_pool sample_tables unlinked_table (cmd_Auth0UserID alice_cmd) = Inl ErrUserNotFound
   \<and> RegisterOrUpdateUserFromAuth (PostgresUserRepository example_pool sample_tables) sample_tables
        fresh_id 2000 unlinked_table alice_cmd
      = (Inl (StorageError ''duplicate key value violates unique constraint users_email_key''),
         unlinked_table)"
  unfolding RegisterOrUpdateUserFromAuth_def
  using alice_email_ok unlinked_found
  by (simp add: alice_cmd_def repo_eval unlinked_user_def unlinked_table_def alice_email_def)

text \<open>
  C2, at the same service. The users table holds Alice linked to \<open>idp|abc123\<close> with an
  unverified address; the claims assert \<open>emailVerified\<close>. \<open>RegisterOrUpdateUserFromAuth\<close>
  returns and saves the existing user (same id) with name and picture of the claims, but
  still unverified (it never calls \<open>VerifyEmail\<close>), and with the bio erased.
\<close>

theorem service_does_not_verify_email:
  "pg_FindByAuth0UserID example_pool sample_tables linked_table (cmd_Auth0UserID alice_cmd) = Inr linked_user
   \<and> cmd_EmailVerified alice_cmd \<and> \<not> u_emailVerified linked_user
   \<and> RegisterOrUpdateUserFromAuth (PostgresUserRepository example_pool sample_tables) sample_tables
        fresh_id 2000 linked_table alice_cmd
      = (Inr (linked_user\<lparr>u_profile := \<lparr>displayName = ''Alice'', bio = [],
                                              profileImageURL = ''https://img.example/a.png''\<rparr>,
                           u_updatedAt := 2000,
                           u_events := [UserProfileUpdated alice_id 2000]\<rparr>),
         [\<lparr>r_id = alice_id, r_auth0_user_id = ''idp|abc123'', r_email = runes ''a@example.com'',
           r_display_name = ''Alice'', r_bio = [],
           r_profile_image_url = ''https://img.example/a.png'', r_email_verified = False,
           r_created_at = 1000, r_verified_at = None, r_updated_at = 2000\<rparr>])"
  unfolding RegisterOrUpdateUserFromAuth_def
  using linked_found
  by (simp add: alice_cmd_def repo_eval linked_user_def linked_table_def alice_email_def)

text \<open>
  The handler that works on the repository itself does set the flag for the same claims,
  and keeps the bio.
\<close>

lemma handler_verifies_email:
  "createOrUpdateUser (PostgresUserRepository example_pool sample_tables) sample_tables fresh_id 2000
      linked_table alice_claims
   = (Inr (linked_user\<lparr>u_emailVerified := True, u_verifiedAt := Some 2000, u_updatedAt := 2000,
                        u_events := [EmailVerified alice_id (runes ''a@example.com'') 2000]\<rparr>),
      [\<lparr>r_id = alice_id, r_auth0_user_id = ''idp|abc123'', r_email = runes ''a@example.com'',
           r_display_name = ''Alice'', r_bio = ''I sit every morning.'',
           r_profile_image_url = ''https://img.example/a.png'', r_email_verified = True,
           r_created_at = 1000, r_verified_at = Some 2000, r_updated_at = 2000\<rparr>])"
  unfolding createOrUpdateUser_def
  using linked_found
  by (simp add: alice_claims_def repo_eval linked_user_def linked_table_def alice_email_def)

text \<open>
  That handler has no look-up by e-mail address either: on the table with the unlinked
  user it fails like the service. And it reads the picture of the claims only when the
  display name differs.
\<close>

lemma handler_does_not_link_unlinked_user:
  "createOrUpdateUser (PostgresUserRepository example_pool sample_tables) sample_tables fresh_id 2000
      unlinked_table alice_claims
   = (Inl (Wrap ''failed to save user''
        (StorageError ''duplicate key value violates unique constraint users_email_key'')),
      unlinked_table)"
  unfolding createOrUpdateUser_def
  using alice_email_ok unlinked_found
  by (simp add: alice_claims_def repo_eval unlinked_user_def unlinked_table_def alice_email_def)

lemma handler_ignores_new_picture:
  "fst (createOrUpdateUser (PostgresUserRepository example_pool sample_tables) sample_tables fresh_id 2000
      linked_table (alice_claims\<lparr>c_Picture := ''https://img.example/new.png'',
                                   c_EmailVerified := False\<rparr>))
   = Inr linked_user"
  unfolding createOrUpdateUser_def
  using linked_found
  by (simp add: alice_claims_def repo_eval linked_user_def linked_table_def alice_email_def)

section \<open>The state parameter of the login flow\<close>

text \<open>
  C4, at the routes. Every call of \<open>SignIn\<close> redirects to the authorization URL built for
  the literal state \<open>"state"\<close>, the same for any two requests; and \<open>Callback\<close> gives the
  same response whatever \<open>state\<close> the callback request carries: the returned state is
  compared with nothing before the code is exchanged.
\<close>

theorem login_state_is_constant:
  "SignIn idp req1 = SignIn idp req2
   \<and> resp_location (SignIn idp req1) = AuthCodeURL idp ''state''
   \<and> resp_location (Auth0Handler_SignIn idp req1) = AuthCodeURL idp ''state''
   \<and> Callback R U idp cs env uuid now st (req\<lparr>q_state := s\<rparr>) =
       Callback R U idp cs env uuid now st req"
  by (simp add: SignIn_def Auth0Handler_SignIn_def GetLoginURL_def Redirect_def Callback_def
      HandleCallback_via_service_def Let_def)

text \<open>
  For instance, a callback with a valid code and a state chosen by the sender ends with
  the session cookie set.
\<close>

lemma forged_state_is_accepted:
  "resp_location (SignIn example_provider login_request) =
     ''https://tenant.auth0.com/authorize?access_type=offline&client_id=client&response_type=code&scope=openid+profile+email&state=state''
   \<and> fst (Callback (PostgresUserRepository example_pool sample_tables) sample_tables example_provider
           example_store (example_env ''0123456789abcdef0123456789abcdef'') fresh_id 1000
           linked_table forged_callback)
       = \<lparr>resp_status = 307, resp_location = ''http://localhost:3000/'',
          resp_cookie = Some example_cookie\<rparr>"
proof -
  have h: "HandleCallback_via_service (PostgresUserRepository example_pool sample_tables) sample_tables example_provider
             fresh_id 1000 linked_table ''code-1'' ''chosen-by-the-attacker''
           = (Inr alice_session,
              [\<lparr>r_id = alice_id, r_auth0_user_id = ''idp|abc123'', r_email = runes ''a@example.com'',
                r_display_name = ''Alice'', r_bio = [],
                r_profile_image_url = ''https://img.example/a.png'', r_email_verified = False,
                r_created_at = 1000, r_verified_at = None, r_updated_at = 1000\<rparr>])"
    unfolding HandleCallback_via_service_def createOrUpdateUser_via_service_def
      RegisterOrUpdateUserFromAuth_def
    using linked_found
    by (simp add: example_provider_def example_token_def alice_claims_def repo_eval
        linked_user_def linked_table_def alice_email_def alice_session_def)
  have c: "fst (Callback (PostgresUserRepository example_pool sample_tables) sample_tables example_provider
           example_store (example_env ''0123456789abcdef0123456789abcdef'') fresh_id 1000
           linked_table forged_callback)
       = \<lparr>resp_status = 307, resp_location = ''http://localhost:3000/'',
          resp_cookie = Some example_cookie\<rparr>"
    unfolding Callback_def
    by (simp add: h forged_callback_def example_issue Redirect_def Let_def
        StatusTemporaryRedirect_def frontendURL_def example_env_def)
  have s: "resp_location (SignIn example_provider login_request) =
     ''https://tenant.auth0.com/authorize?access_type=offline&client_id=client&response_type=code&scope=openid+profile+email&state=state''"
    by (simp add: SignIn_def GetLoginURL_def Redirect_def example_provider_def)
  show ?thesis using c s by simp
qed

text \<open>
  The session payload either \<open>HandleCallback\<close> returns carries the expiry of the OAuth token in
  \<open>sd_ExpiresAt\<close>; \<open>SetSession\<close> then replaces it.
\<close>

lemma HandleCallback_places_token_expiry:
  "HandleCallback R U idp uuid now st code state = (Inr d, st') \<Longrightarrow>
     \<exists>tok. Exchange idp code = Inr tok \<and> sd_ExpiresAt d = t_Expiry tok"
  "HandleCallback_via_service R U idp uuid now st code state = (Inr d, st') \<Longrightarrow>
     \<exists>tok. Exchange idp code = Inr tok \<and> sd_ExpiresAt d = t_Expiry tok"
  by (auto simp: HandleCallback_def HandleCallback_via_service_def
      split: sum.splits option.splits prod.splits)

end
